theory Spec2Isabelle
  imports Main
begin

section \<open>Python values, errors and calendar dates\<close>

text \<open>
  The module \<^verbatim>\<open>model.py\<close> declares three mapped classes (\<^verbatim>\<open>User\<close>, \<^verbatim>\<open>Trip\<close>,
  \<^verbatim>\<open>UserTrip\<close>), a serializer \<^verbatim>\<open>to_json\<close> on each, and the seeder \<^verbatim>\<open>example_data\<close>.
  A loaded row is a record whose fields carry the column's type (a nullable column is an
  option); the keyword arguments of a constructor call and the values of a serialized
  mapping are Python values.
\<close>

record date =
  year :: nat
  month :: nat
  day :: nat

datatype pyval = PNone | PBool bool | PInt int | PStr string | PDate date

datatype error = AttributeError | IntegrityError | DataError

text \<open>A value is scalar when it is \<^verbatim>\<open>None\<close>, a boolean, an integer or a string.\<close>

fun is_scalar :: "pyval \<Rightarrow> bool" where
  "is_scalar (PDate d) = False"
| "is_scalar v = True"

definition py_str :: "string option \<Rightarrow> pyval" where
  "py_str x = (case x of None \<Rightarrow> PNone | Some s \<Rightarrow> PStr s)"

text \<open>
  \<^verbatim>\<open>datetime.date\<close> holds a day of the proleptic Gregorian calendar with
  \<^verbatim>\<open>1 <= year <= 9999\<close>.
\<close>

definition is_leap :: "nat \<Rightarrow> bool" where
  "is_leap y = (y mod 4 = 0 \<and> (y mod 100 \<noteq> 0 \<or> y mod 400 = 0))"

definition days_in_month :: "nat \<Rightarrow> nat \<Rightarrow> nat" where
  "days_in_month y m =
     (if m = 2 then (if is_leap y then 29 else 28)
      else if m = 4 \<or> m = 6 \<or> m = 9 \<or> m = 11 then 30 else 31)"

definition valid_date :: "date \<Rightarrow> bool" where
  "valid_date d =
     (1 \<le> year d \<and> year d \<le> 9999 \<and> 1 \<le> month d \<and> month d \<le> 12 \<and>
      1 \<le> day d \<and> day d \<le> days_in_month (year d) (month d))"

subsection \<open>\<^verbatim>\<open>strftime('%Y-%m-%d')\<close>\<close>

text \<open>
  \<^verbatim>\<open>date.strftime\<close> hands the format to the C library. There \<^verbatim>\<open>%Y\<close> is the year as
  a decimal number, with no padding: the year 999 is written \<^verbatim>\<open>999\<close> and the year 1 is
  written \<^verbatim>\<open>1\<close>. \<^verbatim>\<open>%m\<close> and \<^verbatim>\<open>%d\<close> are the month and the day, zero-padded to
  two digits.
\<close>

definition digit_char :: "nat \<Rightarrow> char" where
  "digit_char n = ''0123456789'' ! (n mod 10)"

fun str_nat :: "nat \<Rightarrow> string" where
  "str_nat n = (if n < 10 then [digit_char n] else str_nat (n div 10) @ [digit_char (n mod 10)])"

declare str_nat.simps [simp del]

definition zfill :: "nat \<Rightarrow> string \<Rightarrow> string" where
  "zfill w s = replicate (w - length s) (CHR ''0'') @ s"

definition strftime_Ymd :: "date \<Rightarrow> string" where
  "strftime_Ymd d =
     str_nat (year d) @ ''-'' @ zfill 2 (str_nat (month d)) @ ''-'' @
     zfill 2 (str_nat (day d))"

text \<open>The shape \<^verbatim>\<open>YYYY-MM-DD\<close>, and the number a run of decimal digits denotes.\<close>

definition is_digit :: "char \<Rightarrow> bool" where
  "is_digit c = (c \<in> set ''0123456789'')"

definition is_ymd :: "string \<Rightarrow> bool" where
  "is_ymd s =
     (length s = 10 \<and> list_all is_digit (take 4 s) \<and> s ! 4 = CHR ''-'' \<and>
      list_all is_digit (take 2 (drop 5 s)) \<and> s ! 7 = CHR ''-'' \<and>
      list_all is_digit (drop 8 s))"

definition digit_val :: "char \<Rightarrow> nat" where
  "digit_val c = of_char c - 48"

definition nat_of_digits :: "string \<Rightarrow> nat" where
  "nat_of_digits s = foldl (\<lambda>a c. 10 * a + digit_val c) 0 s"

section \<open>The mapped classes\<close>

text \<open>
  Each record field is a \<^verbatim>\<open>db.Column\<close> of the class, in the order of the source.
  \<^verbatim>\<open>user_id\<close> and \<^verbatim>\<open>trip_id\<close> are columns of more than one class; the selectors are
  told apart by the record's name (\<open>user.user_id\<close>, \<open>trip.user_id\<close>).
\<close>

record user =
  user_id :: int
  email :: "string option"
  password :: "string option"
  fname :: "string option"
  lname :: "string option"
  user_gender :: "string option"
  user_bio :: "string option"
  user_profile_img :: "string option"
  user_social_media :: "string option"
  phone_number :: "int option"

record trip =
  trip_id :: int
  is_active :: "bool option"
  date_of_trip :: date
  time :: string
  max_passengers :: int
  num_passengers :: int
  willing_to_stop :: bool
  trip_cost :: int
  user_id :: int
  origin :: string
  destination :: string
  distance_meters :: int
  display_distance :: string

record user_trip =
  user_trip_id :: int
  trip_id :: int
  user_id :: int

text \<open>
  The store behind \<^verbatim>\<open>db\<close>: the rows of the three tables in insertion order, the next
  value of each table's identifier sequence, and the objects added to the session and not
  yet flushed (a class name with the constructor's keyword arguments).
\<close>

type_synonym kwargs = "(string \<times> pyval) list"

datatype pending = NewUser kwargs | NewTrip kwargs | NewUserTrip kwargs

record store =
  users :: "user list"
  trips :: "trip list"
  user_trips :: "user_trip list"
  users_seq :: int
  trips_seq :: int
  user_trips_seq :: int
  session_new :: "pending list"

subsection \<open>Relationships\<close>

text \<open>
  A many-to-one \<^verbatim>\<open>db.relationship\<close> loads the row whose primary key is the foreign key,
  and is \<^verbatim>\<open>None\<close> when there is none.
\<close>

definition Trip_user :: "store \<Rightarrow> trip \<Rightarrow> user option" where
  "Trip_user s t = find (\<lambda>u. user.user_id u = trip.user_id t) (users s)"

definition UserTrip_trip :: "store \<Rightarrow> user_trip \<Rightarrow> trip option" where
  "UserTrip_trip s ut = find (\<lambda>t. trip.trip_id t = user_trip.trip_id ut) (trips s)"

definition UserTrip_user :: "store \<Rightarrow> user_trip \<Rightarrow> user option" where
  "UserTrip_user s ut = find (\<lambda>u. user.user_id u = user_trip.user_id ut) (users s)"

subsection \<open>\<^verbatim>\<open>to_json\<close>\<close>

text \<open>
  The returned \<^verbatim>\<open>dict\<close> is the list of its items in the order of the literal. Reading an
  attribute of a relationship that is \<^verbatim>\<open>None\<close> raises \<^verbatim>\<open>AttributeError\<close>.
\<close>

definition User_to_json :: "user \<Rightarrow> (string \<times> pyval) list" where
  "User_to_json self =
     [(''user_id'', PInt (user.user_id self)),
      (''email'', py_str (email self)),
      (''password'', py_str (password self)),
      (''fname'', py_str (fname self)),
      (''lname'', py_str (lname self)),
      (''userGender'', py_str (user_gender self)),
      (''userBio'', py_str (user_bio self)),
      (''userProfileImg'', py_str (user_profile_img self)),
      (''userSocialMedia'', py_str (user_social_media self))]"

definition Trip_to_json :: "store \<Rightarrow> trip \<Rightarrow> error + (string \<times> pyval) list" where
  "Trip_to_json s self =
     (let datetime_str = strftime_Ymd (date_of_trip self) in
      case Trip_user s self of
        None \<Rightarrow> Inl AttributeError
      | Some u \<Rightarrow>
          Inr [(''tripId'', PInt (trip.trip_id self)),
               (''dateOfTrip'', PStr datetime_str),
               (''maxPassengers'', PInt (max_passengers self)),
               (''numPassengers'', PInt (num_passengers self)),
               (''willingToStop'', PBool (willing_to_stop self)),
               (''tripCost'', PInt (trip_cost self)),
               (''origin'', PStr (origin self)),
               (''time'', PStr (time self)),
               (''destination'', PStr (destination self)),
               (''distanceMeters'', PInt (distance_meters self)),
               (''displayDistance'', PStr (display_distance self)),
               (''userAsDriver'', PInt (trip.user_id self)),
               (''userFirstName'', py_str (fname u)),
               (''userProfileImg'', py_str (user_profile_img u))])"

definition UserTrip_to_json :: "store \<Rightarrow> user_trip \<Rightarrow> error + (string \<times> pyval) list" where
  "UserTrip_to_json s self =
     (case UserTrip_trip s self of
        None \<Rightarrow> Inl AttributeError
      | Some t \<Rightarrow>
          (let datetime_str = strftime_Ymd (date_of_trip t) in
           case UserTrip_user s self of
             None \<Rightarrow> Inl AttributeError
           | Some u \<Rightarrow>
               (case Trip_user s t of
                  None \<Rightarrow> Inl AttributeError
                | Some d \<Rightarrow>
                    Inr [(''userTripId'', PInt (user_trip_id self)),
                         (''tripId'', PInt (user_trip.trip_id self)),
                         (''userId'', PInt (user_trip.user_id self)),
                         (''dateOfTrip'', PStr datetime_str),
                         (''userFirstName'', py_str (fname u)),
                         (''userProfileImg'', py_str (user_profile_img u)),
                         (''userBio'', py_str (user_bio u)),
                         (''origin'', PStr (origin t)),
                         (''time'', PStr (time t)),
                         (''destination'', PStr (destination t)),
                         (''displayDistance'', PStr (display_distance t)),
                         (''distanceMeters'', PInt (distance_meters t)),
                         (''numPassengers'', PInt (num_passengers t)),
                         (''driverFirstName'', py_str (fname d)),
                         (''driverProfileImg'', py_str (user_profile_img d)),
                         (''driverBio'', py_str (user_bio d))])))"

subsection \<open>\<^verbatim>\<open>to_json\<close> as a method call\<close>

text \<open>
  A method call runs in a state: the receiver \<^verbatim>\<open>self\<close> and the store behind \<^verbatim>\<open>db\<close>.
  An action takes the state and gives a value or an error, and the state afterwards, so
  that an action may change any field of the receiver and of any stored row. The body of
  a method is the sequence of its steps: reading an attribute of \<^verbatim>\<open>self\<close>, loading a
  relationship, reading an attribute of the loaded object (an \<^verbatim>\<open>AttributeError\<close> when
  it is \<^verbatim>\<open>None\<close>), and returning the \<^verbatim>\<open>dict\<close>.
\<close>

type_synonym ('st, 'a) action = "'st \<Rightarrow> (error + 'a) \<times> 'st"

definition ret :: "'a \<Rightarrow> ('st, 'a) action" where
  "ret x = (\<lambda>st. (Inr x, st))"

definition bind_a :: "('st, 'a) action \<Rightarrow> ('a \<Rightarrow> ('st, 'b) action) \<Rightarrow> ('st, 'b) action" where
  "bind_a m f = (\<lambda>st. case m st of (Inl e, st') \<Rightarrow> (Inl e, st') | (Inr x, st') \<Rightarrow> f x st')"

definition reads :: "('st \<Rightarrow> 'a) \<Rightarrow> ('st, 'a) action" where
  "reads f = (\<lambda>st. (Inr (f st), st))"

definition getattr :: "'o option \<Rightarrow> ('o \<Rightarrow> 'a) \<Rightarrow> ('st, 'a) action" where
  "getattr obj f =
     (\<lambda>st. case obj of None \<Rightarrow> (Inl AttributeError, st) | Some v \<Rightarrow> (Inr (f v), st))"

definition getrel ::
  "'o option \<Rightarrow> (store \<Rightarrow> 'o \<Rightarrow> 'r option) \<Rightarrow> ('e \<times> store, 'r option) action" where
  "getrel obj rel =
     (\<lambda>st. case obj of
              None \<Rightarrow> (Inl AttributeError, st)
            | Some v \<Rightarrow> (Inr (rel (snd st) v), st))"

definition User_to_json_call :: "(user \<times> store, (string \<times> pyval) list) action" where
  "User_to_json_call =
     bind_a (reads (\<lambda>(self, db). user.user_id self)) (\<lambda>v_user_id.
     bind_a (reads (\<lambda>(self, db). email self)) (\<lambda>v_email.
     bind_a (reads (\<lambda>(self, db). password self)) (\<lambda>v_password.
     bind_a (reads (\<lambda>(self, db). fname self)) (\<lambda>v_fname.
     bind_a (reads (\<lambda>(self, db). lname self)) (\<lambda>v_lname.
     bind_a (reads (\<lambda>(self, db). user_gender self)) (\<lambda>v_user_gender.
     bind_a (reads (\<lambda>(self, db). user_bio self)) (\<lambda>v_user_bio.
     bind_a (reads (\<lambda>(self, db). user_profile_img self)) (\<lambda>v_user_profile_img.
     bind_a (reads (\<lambda>(self, db). user_social_media self)) (\<lambda>v_user_social_media.
     ret [(''user_id'', PInt v_user_id),
          (''email'', py_str v_email),
          (''password'', py_str v_password),
          (''fname'', py_str v_fname),
          (''lname'', py_str v_lname),
          (''userGender'', py_str v_user_gender),
          (''userBio'', py_str v_user_bio),
          (''userProfileImg'', py_str v_user_profile_img),
          (''userSocialMedia'', py_str v_user_social_media)])))))))))"

definition Trip_to_json_call :: "(trip \<times> store, (string \<times> pyval) list) action" where
  "Trip_to_json_call =
     bind_a (reads (\<lambda>(self, db). date_of_trip self)) (\<lambda>v_date.
     bind_a (ret (strftime_Ymd v_date)) (\<lambda>datetime_str.
     bind_a (reads (\<lambda>(self, db). trip.trip_id self)) (\<lambda>v_trip_id.
     bind_a (reads (\<lambda>(self, db). max_passengers self)) (\<lambda>v_max_passengers.
     bind_a (reads (\<lambda>(self, db). num_passengers self)) (\<lambda>v_num_passengers.
     bind_a (reads (\<lambda>(self, db). willing_to_stop self)) (\<lambda>v_willing_to_stop.
     bind_a (reads (\<lambda>(self, db). trip_cost self)) (\<lambda>v_trip_cost.
     bind_a (reads (\<lambda>(self, db). origin self)) (\<lambda>v_origin.
     bind_a (reads (\<lambda>(self, db). time self)) (\<lambda>v_time.
     bind_a (reads (\<lambda>(self, db). destination self)) (\<lambda>v_destination.
     bind_a (reads (\<lambda>(self, db). distance_meters self)) (\<lambda>v_distance_meters.
     bind_a (reads (\<lambda>(self, db). display_distance self)) (\<lambda>v_display_distance.
     bind_a (reads (\<lambda>(self, db). trip.user_id self)) (\<lambda>v_user_id.
     bind_a (reads (\<lambda>(self, db). Trip_user db self)) (\<lambda>user1.
     bind_a (getattr user1 fname) (\<lambda>v_fname.
     bind_a (reads (\<lambda>(self, db). Trip_user db self)) (\<lambda>user2.
     bind_a (getattr user2 user_profile_img) (\<lambda>v_user_profile_img.
     ret [(''tripId'', PInt v_trip_id),
          (''dateOfTrip'', PStr datetime_str),
          (''maxPassengers'', PInt v_max_passengers),
          (''numPassengers'', PInt v_num_passengers),
          (''willingToStop'', PBool v_willing_to_stop),
          (''tripCost'', PInt v_trip_cost),
          (''origin'', PStr v_origin),
          (''time'', PStr v_time),
          (''destination'', PStr v_destination),
          (''distanceMeters'', PInt v_distance_meters),
          (''displayDistance'', PStr v_display_distance),
          (''userAsDriver'', PInt v_user_id),
          (''userFirstName'', py_str v_fname),
          (''userProfileImg'', py_str v_user_profile_img)])))))))))))))))))"

definition UserTrip_to_json_call :: "(user_trip \<times> store, (string \<times> pyval) list) action" where
  "UserTrip_to_json_call =
     bind_a (reads (\<lambda>(self, db). UserTrip_trip db self)) (\<lambda>trip0.
     bind_a (getattr trip0 date_of_trip) (\<lambda>v_date.
     bind_a (ret (strftime_Ymd v_date)) (\<lambda>datetime_str.
     bind_a (reads (\<lambda>(self, db). user_trip_id self)) (\<lambda>v_user_trip_id.
     bind_a (reads (\<lambda>(self, db). user_trip.trip_id self)) (\<lambda>v_trip_id.
     bind_a (reads (\<lambda>(self, db). user_trip.user_id self)) (\<lambda>v_user_id.
     bind_a (reads (\<lambda>(self, db). UserTrip_user db self)) (\<lambda>user1.
     bind_a (getattr user1 fname) (\<lambda>v_fname.
     bind_a (reads (\<lambda>(self, db). UserTrip_user db self)) (\<lambda>user2.
     bind_a (getattr user2 user_profile_img) (\<lambda>v_user_profile_img.
     bind_a (reads (\<lambda>(self, db). UserTrip_user db self)) (\<lambda>user3.
     bind_a (getattr user3 user_bio) (\<lambda>v_user_bio.
     bind_a (reads (\<lambda>(self, db). UserTrip_trip db self)) (\<lambda>trip1.
     bind_a (getattr trip1 origin) (\<lambda>v_origin.
     bind_a (reads (\<lambda>(self, db). UserTrip_trip db self)) (\<lambda>trip2.
     bind_a (getattr trip2 time) (\<lambda>v_time.
     bind_a (reads (\<lambda>(self, db). UserTrip_trip db self)) (\<lambda>trip3.
     bind_a (getattr trip3 destination) (\<lambda>v_destination.
     bind_a (reads (\<lambda>(self, db). UserTrip_trip db self)) (\<lambda>trip4.
     bind_a (getattr trip4 display_distance) (\<lambda>v_display_distance.
     bind_a (reads (\<lambda>(self, db). UserTrip_trip db self)) (\<lambda>trip5.
     bind_a (getattr trip5 distance_meters) (\<lambda>v_distance_meters.
     bind_a (reads (\<lambda>(self, db). UserTrip_trip db self)) (\<lambda>trip6.
     bind_a (getattr trip6 num_passengers) (\<lambda>v_num_passengers.
     bind_a (reads (\<lambda>(self, db). UserTrip_trip db self)) (\<lambda>trip7.
     bind_a (getrel trip7 Trip_user) (\<lambda>driver1.
     bind_a (getattr driver1 fname) (\<lambda>v_driver_fname.
     bind_a (reads (\<lambda>(self, db). UserTrip_trip db self)) (\<lambda>trip8.
     bind_a (getrel trip8 Trip_user) (\<lambda>driver2.
     bind_a (getattr driver2 user_profile_img) (\<lambda>v_driver_profile_img.
     bind_a (reads (\<lambda>(self, db). UserTrip_trip db self)) (\<lambda>trip9.
     bind_a (getrel trip9 Trip_user) (\<lambda>driver3.
     bind_a (getattr driver3 user_bio) (\<lambda>v_driver_bio.
     ret [(''userTripId'', PInt v_user_trip_id),
          (''tripId'', PInt v_trip_id),
          (''userId'', PInt v_user_id),
          (''dateOfTrip'', PStr datetime_str),
          (''userFirstName'', py_str v_fname),
          (''userProfileImg'', py_str v_user_profile_img),
          (''userBio'', py_str v_user_bio),
          (''origin'', PStr v_origin),
          (''time'', PStr v_time),
          (''destination'', PStr v_destination),
          (''displayDistance'', PStr v_display_distance),
          (''distanceMeters'', PInt v_distance_meters),
          (''numPassengers'', PInt v_num_passengers),
          (''driverFirstName'', py_str v_driver_fname),
          (''driverProfileImg'', py_str v_driver_profile_img),
          (''driverBio'', py_str v_driver_bio)])))))))))))))))))))))))))))))))))"

section \<open>The session\<close>

text \<open>
  \<^verbatim>\<open>db.session.add\<close> registers a new object; \<^verbatim>\<open>db.session.commit\<close> flushes the
  registered objects as \<^verbatim>\<open>INSERT\<close>s in one transaction, which the database accepts or
  rejects as a whole. An attribute that the constructor call does not name is \<^verbatim>\<open>None\<close>.
\<close>

definition attr :: "kwargs \<Rightarrow> string \<Rightarrow> pyval" where
  "attr kw k = (case map_of kw k of None \<Rightarrow> PNone | Some v \<Rightarrow> v)"

definition bind_e :: "error + 'a \<Rightarrow> ('a \<Rightarrow> error + 'b) \<Rightarrow> error + 'b" where
  "bind_e m f = (case m of Inl e \<Rightarrow> Inl e | Inr x \<Rightarrow> f x)"

subsection \<open>Column types\<close>

text \<open>
  What a column of each declared type stores for a bound Python value: the value of the
  column's own type, \<^verbatim>\<open>None\<close> as \<^verbatim>\<open>NULL\<close>, and for \<^verbatim>\<open>Integer\<close>, \<^verbatim>\<open>Numeric\<close> and
  \<^verbatim>\<open>Date\<close> also the text of a literal, which the database converts (a signed run of
  digits; a date written month-day-year or year-month-day with hyphens). A value the
  column does not take is a \<open>DataError\<close>. \<^verbatim>\<open>Integer\<close> is a 32-bit column,
  \<^verbatim>\<open>String(n)\<close> holds at most \<open>n\<close> characters, \<^verbatim>\<open>Numeric(p)\<close> at most \<open>p\<close> digits.
\<close>

definition digits_ok :: "string \<Rightarrow> bool" where
  "digits_ok s = (s \<noteq> [] \<and> list_all is_digit s)"

definition int_of_text :: "string \<Rightarrow> int option" where
  "int_of_text s =
     (case s of
        [] \<Rightarrow> None
      | c # cs \<Rightarrow>
          if c = CHR ''-'' then (if digits_ok cs then Some (- int (nat_of_digits cs)) else None)
          else if c = CHR ''+'' then (if digits_ok cs then Some (int (nat_of_digits cs)) else None)
          else if digits_ok s then Some (int (nat_of_digits s)) else None)"

fun split_on :: "char \<Rightarrow> string \<Rightarrow> string list" where
  "split_on c [] = [[]]"
| "split_on c (x # xs) =
     (if x = c then [] # split_on c xs
      else (case split_on c xs of [] \<Rightarrow> [[x]] | w # ws \<Rightarrow> (x # w) # ws))"

definition date_of_text :: "string \<Rightarrow> date option" where
  "date_of_text s =
     (case split_on (CHR ''-'') s of
        [a, b, c] \<Rightarrow>
          if digits_ok a \<and> digits_ok b \<and> digits_ok c then
            (let d = (if length a = 4
                      then \<lparr>year = nat_of_digits a, month = nat_of_digits b, day = nat_of_digits c\<rparr>
                      else \<lparr>year = nat_of_digits c, month = nat_of_digits a, day = nat_of_digits b\<rparr>)
             in if (length a = 4 \<or> length c = 4) \<and> valid_date d then Some d else None)
          else None
      | _ \<Rightarrow> None)"

definition int4_ok :: "int \<Rightarrow> bool" where
  "int4_ok n = (- 2147483648 \<le> n \<and> n \<le> 2147483647)"

fun col_integer :: "pyval \<Rightarrow> error + int option" where
  "col_integer PNone = Inr None"
| "col_integer (PInt n) = (if int4_ok n then Inr (Some n) else Inl DataError)"
| "col_integer (PStr s) =
     (case int_of_text s of
        None \<Rightarrow> Inl DataError
      | Some n \<Rightarrow> if int4_ok n then Inr (Some n) else Inl DataError)"
| "col_integer v = Inl DataError"

fun col_numeric :: "nat \<Rightarrow> pyval \<Rightarrow> error + int option" where
  "col_numeric p PNone = Inr None"
| "col_numeric p (PInt n) = (if \<bar>n\<bar> < 10 ^ p then Inr (Some n) else Inl DataError)"
| "col_numeric p (PStr s) =
     (case int_of_text s of
        None \<Rightarrow> Inl DataError
      | Some n \<Rightarrow> if \<bar>n\<bar> < 10 ^ p then Inr (Some n) else Inl DataError)"
| "col_numeric p v = Inl DataError"

fun col_string :: "nat option \<Rightarrow> pyval \<Rightarrow> error + string option" where
  "col_string n PNone = Inr None"
| "col_string n (PStr s) =
     (case n of
        None \<Rightarrow> Inr (Some s)
      | Some k \<Rightarrow> if length s \<le> k then Inr (Some s) else Inl DataError)"
| "col_string n v = Inl DataError"

fun col_boolean :: "pyval \<Rightarrow> error + bool option" where
  "col_boolean PNone = Inr None"
| "col_boolean (PBool b) = Inr (Some b)"
| "col_boolean v = Inl DataError"

fun col_date :: "pyval \<Rightarrow> error + date option" where
  "col_date PNone = Inr None"
| "col_date (PDate d) = (if valid_date d then Inr (Some d) else Inl DataError)"
| "col_date (PStr s) = (case date_of_text s of None \<Rightarrow> Inl DataError | Some d \<Rightarrow> Inr (Some d))"
| "col_date v = Inl DataError"

text \<open>\<^verbatim>\<open>nullable=False\<close>: a \<^verbatim>\<open>NULL\<close> violates the constraint.\<close>

definition not_null :: "'a option \<Rightarrow> error + 'a" where
  "not_null x = (case x of None \<Rightarrow> Inl IntegrityError | Some v \<Rightarrow> Inr v)"

text \<open>\<^verbatim>\<open>default=0\<close>: the default stands in for an attribute that is \<^verbatim>\<open>None\<close>.\<close>

definition with_default :: "pyval \<Rightarrow> pyval \<Rightarrow> pyval" where
  "with_default d v = (if v = PNone then d else v)"

text \<open>
  \<^verbatim>\<open>autoincrement=True, primary_key=True\<close>: an identifier that is not given is the next
  value of the table's sequence; the pair is the identifier and the sequence afterwards.
\<close>

definition next_id :: "int option \<Rightarrow> int \<Rightarrow> int \<times> int" where
  "next_id pk seq = (case pk of None \<Rightarrow> (seq, seq + 1) | Some n \<Rightarrow> (n, seq))"

subsection \<open>Rows from constructor arguments\<close>

definition make_user :: "int \<Rightarrow> kwargs \<Rightarrow> error + user" where
  "make_user pk kw =
     bind_e (col_string (Some 64) (attr kw ''email'')) (\<lambda>c_email.
     bind_e (col_string (Some 649) (attr kw ''password'')) (\<lambda>c_password.
     bind_e (col_string (Some 20) (attr kw ''fname'')) (\<lambda>c_fname.
     bind_e (col_string (Some 20) (attr kw ''lname'')) (\<lambda>c_lname.
     bind_e (col_string (Some 20) (attr kw ''user_gender'')) (\<lambda>c_user_gender.
     bind_e (col_string (Some 160) (attr kw ''user_bio'')) (\<lambda>c_user_bio.
     bind_e (col_string (Some 250) (attr kw ''user_profile_img'')) (\<lambda>c_user_profile_img.
     bind_e (col_string (Some 3000) (attr kw ''user_social_media'')) (\<lambda>c_user_social_media.
     bind_e (col_numeric 12 (attr kw ''phone_number'')) (\<lambda>c_phone_number.
     Inr \<lparr>user.user_id = pk, email = c_email, password = c_password, fname = c_fname,
          lname = c_lname, user_gender = c_user_gender, user_bio = c_user_bio,
          user_profile_img = c_user_profile_img, user_social_media = c_user_social_media,
          phone_number = c_phone_number\<rparr>)))))))))"

definition make_trip :: "int \<Rightarrow> kwargs \<Rightarrow> error + trip" where
  "make_trip pk kw =
     bind_e (col_boolean (attr kw ''is_active'')) (\<lambda>c_is_active.
     bind_e (col_date (attr kw ''date_of_trip'')) (\<lambda>c_date_of_trip.
     bind_e (col_string None (attr kw ''time'')) (\<lambda>c_time.
     bind_e (col_integer (attr kw ''max_passengers'')) (\<lambda>c_max_passengers.
     bind_e (col_integer (with_default (PInt 0) (attr kw ''num_passengers''))) (\<lambda>c_num_passengers.
     bind_e (col_boolean (attr kw ''willing_to_stop'')) (\<lambda>c_willing_to_stop.
     bind_e (col_integer (attr kw ''trip_cost'')) (\<lambda>c_trip_cost.
     bind_e (col_integer (attr kw ''user_id'')) (\<lambda>c_user_id.
     bind_e (col_string (Some 64) (attr kw ''origin'')) (\<lambda>c_origin.
     bind_e (col_string (Some 64) (attr kw ''destination'')) (\<lambda>c_destination.
     bind_e (col_integer (attr kw ''distance_meters'')) (\<lambda>c_distance_meters.
     bind_e (col_string (Some 15) (attr kw ''display_distance'')) (\<lambda>c_display_distance.
     bind_e (not_null c_date_of_trip) (\<lambda>n_date_of_trip.
     bind_e (not_null c_time) (\<lambda>n_time.
     bind_e (not_null c_max_passengers) (\<lambda>n_max_passengers.
     bind_e (not_null c_num_passengers) (\<lambda>n_num_passengers.
     bind_e (not_null c_willing_to_stop) (\<lambda>n_willing_to_stop.
     bind_e (not_null c_trip_cost) (\<lambda>n_trip_cost.
     bind_e (not_null c_user_id) (\<lambda>n_user_id.
     bind_e (not_null c_origin) (\<lambda>n_origin.
     bind_e (not_null c_destination) (\<lambda>n_destination.
     bind_e (not_null c_distance_meters) (\<lambda>n_distance_meters.
     bind_e (not_null c_display_distance) (\<lambda>n_display_distance.
     Inr \<lparr>trip.trip_id = pk, is_active = c_is_active, date_of_trip = n_date_of_trip,
          time = n_time, max_passengers = n_max_passengers,
          num_passengers = n_num_passengers, willing_to_stop = n_willing_to_stop,
          trip_cost = n_trip_cost, user_id = n_user_id, origin = n_origin,
          destination = n_destination, distance_meters = n_distance_meters,
          display_distance = n_display_distance\<rparr>)))))))))))))))))))))))"

definition make_user_trip :: "int \<Rightarrow> kwargs \<Rightarrow> error + user_trip" where
  "make_user_trip pk kw =
     bind_e (col_integer (attr kw ''trip_id'')) (\<lambda>c_trip_id.
     bind_e (col_integer (attr kw ''user_id'')) (\<lambda>c_user_id.
     bind_e (not_null c_trip_id) (\<lambda>n_trip_id.
     bind_e (not_null c_user_id) (\<lambda>n_user_id.
     Inr \<lparr>user_trip_id = pk, trip_id = n_trip_id, user_id = n_user_id\<rparr>))))"

subsection \<open>Inserts, with the primary-key and foreign-key constraints\<close>

definition insert_user :: "kwargs \<Rightarrow> store \<Rightarrow> error + store" where
  "insert_user kw s =
     bind_e (col_integer (attr kw ''user_id'')) (\<lambda>pk.
     let (uid, seq) = next_id pk (users_seq s) in
     bind_e (make_user uid kw) (\<lambda>u.
     if uid \<in> set (map user.user_id (users s)) then Inl IntegrityError
     else Inr (s\<lparr>users := users s @ [u], users_seq := seq\<rparr>)))"

definition insert_trip :: "kwargs \<Rightarrow> store \<Rightarrow> error + store" where
  "insert_trip kw s =
     bind_e (col_integer (attr kw ''trip_id'')) (\<lambda>pk.
     let (tid, seq) = next_id pk (trips_seq s) in
     bind_e (make_trip tid kw) (\<lambda>t.
     if tid \<in> set (map trip.trip_id (trips s)) then Inl IntegrityError
     else if trip.user_id t \<notin> set (map user.user_id (users s)) then Inl IntegrityError
     else Inr (s\<lparr>trips := trips s @ [t], trips_seq := seq\<rparr>)))"

definition insert_user_trip :: "kwargs \<Rightarrow> store \<Rightarrow> error + store" where
  "insert_user_trip kw s =
     bind_e (col_integer (attr kw ''user_trip_id'')) (\<lambda>pk.
     let (utid, seq) = next_id pk (user_trips_seq s) in
     bind_e (make_user_trip utid kw) (\<lambda>ut.
     if utid \<in> set (map user_trip_id (user_trips s)) then Inl IntegrityError
     else if user_trip.trip_id ut \<notin> set (map trip.trip_id (trips s)) then Inl IntegrityError
     else if user_trip.user_id ut \<notin> set (map user.user_id (users s)) then Inl IntegrityError
     else Inr (s\<lparr>user_trips := user_trips s @ [ut], user_trips_seq := seq\<rparr>)))"

fun insert_row :: "pending \<Rightarrow> store \<Rightarrow> error + store" where
  "insert_row (NewUser kw) s = insert_user kw s"
| "insert_row (NewTrip kw) s = insert_trip kw s"
| "insert_row (NewUserTrip kw) s = insert_user_trip kw s"

fun flush :: "pending list \<Rightarrow> store \<Rightarrow> error + store" where
  "flush [] s = Inr s"
| "flush (p # ps) s = bind_e (insert_row p s) (flush ps)"

text \<open>
  The flush inserts parents before children (\<^verbatim>\<open>users\<close>, then \<^verbatim>\<open>trips\<close>, then
  \<^verbatim>\<open>user_trips\<close>), and the objects of one class in the order they were added.
\<close>

fun is_new_user :: "pending \<Rightarrow> bool" where
  "is_new_user (NewUser kw) = True"
| "is_new_user p = False"

fun is_new_trip :: "pending \<Rightarrow> bool" where
  "is_new_trip (NewTrip kw) = True"
| "is_new_trip p = False"

fun is_new_user_trip :: "pending \<Rightarrow> bool" where
  "is_new_user_trip (NewUserTrip kw) = True"
| "is_new_user_trip p = False"

definition session_add :: "pending \<Rightarrow> store \<Rightarrow> store" where
  "session_add p s = s\<lparr>session_new := session_new s @ [p]\<rparr>"

definition session_commit :: "store \<Rightarrow> error + store" where
  "session_commit s =
     (let new = session_new s in
      flush (filter is_new_user new @ filter is_new_trip new @ filter is_new_user_trip new)
        (s\<lparr>session_new := []\<rparr>))"

subsection \<open>\<^verbatim>\<open>example_data\<close>\<close>

text \<open>
  \<^verbatim>\<open>bcrypt.hashpw\<close> draws a random salt, so the decoded hash is an argument of the
  model. The call of \<^verbatim>\<open>Trip\<close> names ten attributes; \<^verbatim>\<open>time\<close> is not among them.
\<close>

definition example_data :: "string \<Rightarrow> store \<Rightarrow> error + store" where
  "example_data hashed_pw s =
     (let user = NewUser
            [(''fname'', PStr ''Jo''),
             (''lname'', PStr ''Bama''),
             (''email'', PStr ''jo@bama.com''),
             (''user_bio'', PStr ''Friendly person''),
             (''user_gender'', PStr ''Female''),
             (''password'', PStr hashed_pw),
             (''user_profile_img'',
                PStr ''https://robohash.org/enimsolutaqui.png?size=50x50&set=set1''),
             (''user_social_media'', PStr ''twitter.com'')];
          s1 = session_add user s;
          trip = NewTrip
            [(''date_of_trip'', PStr ''11-13-2018''),
             (''max_passengers'', PStr ''3''),
             (''num_passengers'', PStr ''1''),
             (''willing_to_stop'', PBool False),
             (''trip_cost'', PStr ''10''),
             (''user_id'', PStr ''1''),
             (''origin'', PStr ''San Francisco''),
             (''destination'', PStr ''Los Angeles''),
             (''distance_meters'', PStr ''15422''),
             (''display_distance'', PStr ''13 mi'')];
          s2 = session_add trip s1
      in session_commit s2)"

definition empty_store :: store where
  "empty_store =
     \<lparr>users = [], trips = [], user_trips = [], users_seq = 1, trips_seq = 1,
      user_trips_seq = 1, session_new = []\<rparr>"

section \<open>Vocabulary of the properties\<close>

text \<open>
  A key is camelCase when it starts with a lower-case letter and continues with letters
  and digits only: no underscore, hyphen or space separates its words.
\<close>

definition is_lower :: "char \<Rightarrow> bool" where
  "is_lower c = (c \<in> set ''abcdefghijklmnopqrstuvwxyz'')"

definition is_upper :: "char \<Rightarrow> bool" where
  "is_upper c = (c \<in> set ''ABCDEFGHIJKLMNOPQRSTUVWXYZ'')"

definition is_camel_case :: "string \<Rightarrow> bool" where
  "is_camel_case k =
     (case k of
        [] \<Rightarrow> False
      | c # cs \<Rightarrow> is_lower c \<and> list_all (\<lambda>x. is_lower x \<or> is_upper x \<or> is_digit x) cs)"

text \<open>The fields each serializer reads from a related row.\<close>

definition user_fields_read :: "user \<Rightarrow> string option \<times> string option \<times> string option" where
  "user_fields_read u = (fname u, user_profile_img u, user_bio u)"

definition trip_fields_read ::
  "trip \<Rightarrow> date \<times> string \<times> string \<times> string \<times> string \<times> int \<times> int" where
  "trip_fields_read t =
     (date_of_trip t, origin t, time t, destination t, display_distance t,
      distance_meters t, num_passengers t)"

text \<open>
  The scenario of the specification: the user Jo, her trip from San Francisco to
  Los Angeles, a second user, and a store that holds them.
\<close>

definition jo :: user where
  "jo = \<lparr>user.user_id = 1, email = Some ''jo@bama.com'', password = Some ''$2b$12$hash'',
         fname = Some ''Jo'', lname = Some ''Bama'', user_gender = Some ''Female'',
         user_bio = Some ''Friendly person'',
         user_profile_img = Some ''https://robohash.org/enimsolutaqui.png?size=50x50&set=set1'',
         user_social_media = Some ''twitter.com'', phone_number = None\<rparr>"

definition al :: user where
  "al = \<lparr>user.user_id = 2, email = Some ''al@bama.com'', password = None,
         fname = Some ''Al'', lname = None, user_gender = None, user_bio = None,
         user_profile_img = Some ''https://robohash.org/al.png'',
         user_social_media = None, phone_number = Some 4155550100\<rparr>"

definition jo_trip :: trip where
  "jo_trip = \<lparr>trip.trip_id = 1, is_active = Some True,
              date_of_trip = \<lparr>year = 2018, month = 11, day = 13\<rparr>, time = ''10:00'',
              max_passengers = 3, num_passengers = 1, willing_to_stop = False,
              trip_cost = 10, user_id = 1, origin = ''San Francisco'',
              destination = ''Los Angeles'', distance_meters = 15422,
              display_distance = ''13 mi''\<rparr>"

definition trip_of_999 :: trip where
  "trip_of_999 = jo_trip\<lparr>date_of_trip := \<lparr>year = 999, month = 1, day = 1\<rparr>\<rparr>"

definition al_joins :: user_trip where
  "al_joins = \<lparr>user_trip_id = 1, trip_id = 1, user_id = 2\<rparr>"

definition jo_store :: store where
  "jo_store =
     \<lparr>users = [jo, al], trips = [jo_trip], user_trips = [al_joins], users_seq = 3,
      trips_seq = 2, user_trips_seq = 2, session_new = []\<rparr>"

definition sample_hash :: string where
  "sample_hash = ''$2b$12$KIXQJfP2Vd8mC3bQw5cY8uV7s1o0r9e6t4n2a1l5i3d7h9g1k3m5q''"

section \<open>Decimal digits and the date format\<close>

lemma digit_char_is_digit: "is_digit (digit_char n)"
proof -
  have "n mod 10 < length ''0123456789''" by simp
  then have "''0123456789'' ! (n mod 10) \<in> set ''0123456789''" by (rule nth_mem)
  then show ?thesis by (simp only: is_digit_def digit_char_def)
qed

lemma digit_val_digit_char: "n < 10 \<Longrightarrow> digit_val (digit_char n) = n"
proof -
  assume "n < 10"
  then have "n \<in> set [0..<10]" by simp
  moreover have "\<forall>k \<in> set [0..<10]. digit_val (digit_char k) = k"
    unfolding list_all_iff [symmetric] by (simp add: upt_rec digit_val_def digit_char_def)
  ultimately show ?thesis by blast
qed

lemma str_nat_digits: "list_all is_digit (str_nat n)"
proof (induction n rule: str_nat.induct)
  case (1 n)
  show ?case
  proof (cases "n < 10")
    case True
    then show ?thesis by (simp add: str_nat.simps [of n] digit_char_is_digit)
  next
    case False
    with 1 show ?thesis by (simp add: str_nat.simps [of n] digit_char_is_digit)
  qed
qed

lemma str_nat_length: "n < 10 ^ k \<Longrightarrow> 0 < k \<Longrightarrow> length (str_nat n) \<le> k"
proof (induction n arbitrary: k rule: str_nat.induct)
  case (1 n)
  show ?case
  proof (cases "n < 10")
    case True
    with 1 show ?thesis by (simp add: str_nat.simps [of n] Suc_leI)
  next
    case False
    from 1(3) obtain j where k: "k = Suc j" by (cases k) auto
    with 1(2) False have j: "0 < j" by (cases j) auto
    from 1(2) k have "n div 10 < 10 ^ j" by (simp add: less_mult_imp_div_less mult.commute)
    with 1(1) False j have "length (str_nat (n div 10)) \<le> j" by simp
    with False k show ?thesis by (simp add: str_nat.simps [of n])
  qed
qed

lemma nat_of_digits_snoc: "nat_of_digits (s @ [c]) = 10 * nat_of_digits s + digit_val c"
  by (simp add: nat_of_digits_def)

lemma nat_of_digits_str_nat: "nat_of_digits (str_nat n) = n"
proof (induction n rule: str_nat.induct)
  case (1 n)
  show ?case
  proof (cases "n < 10")
    case True
    then show ?thesis by (simp add: str_nat.simps [of n] nat_of_digits_def digit_val_digit_char)
  next
    case False
    with 1 show ?thesis
      by (simp add: str_nat.simps [of n] nat_of_digits_snoc digit_val_digit_char)
  qed
qed

lemma nat_of_digits_zeros: "nat_of_digits (replicate k (CHR ''0'') @ s) = nat_of_digits s"
proof (induction k)
  case 0
  show ?case by simp
next
  case (Suc k)
  have "foldl (\<lambda>a c. 10 * a + digit_val c) 0 (CHR ''0'' # replicate k (CHR ''0'') @ s)
        = foldl (\<lambda>a c. 10 * a + digit_val c) 0 (replicate k (CHR ''0'') @ s)"
    by (simp add: digit_val_def)
  with Suc show ?case by (simp add: nat_of_digits_def)
qed

lemma zfill_value: "nat_of_digits (zfill w (str_nat n)) = n"
  by (simp add: zfill_def nat_of_digits_zeros nat_of_digits_str_nat)

lemma zfill_length: "n < 10 ^ w \<Longrightarrow> 0 < w \<Longrightarrow> length (zfill w (str_nat n)) = w"
  using str_nat_length [of n w] by (simp add: zfill_def)

lemma zfill_digits: "list_all is_digit (zfill w (str_nat n))"
proof -
  have "is_digit (CHR ''0'')" by (simp add: is_digit_def)
  then have "list_all is_digit (replicate (w - length (str_nat n)) (CHR ''0''))"
    by (simp add: list_all_iff)
  with str_nat_digits [of n] show ?thesis by (simp add: zfill_def)
qed

lemma hyphen_not_digit: "\<not> is_digit (CHR ''-'')"
  by (simp add: is_digit_def)

lemma digit_not_hyphen: "list_all is_digit a \<Longrightarrow> CHR ''-'' \<notin> set a"
proof
  assume "list_all is_digit a" and "CHR ''-'' \<in> set a"
  then have "is_digit (CHR ''-'')" by (simp only: list_all_iff)
  with hyphen_not_digit show False by simp
qed

lemma split_on_no_sep: "c \<notin> set a \<Longrightarrow> split_on c a = [a]"
  by (induction a) auto

lemma split_on_append: "c \<notin> set a \<Longrightarrow> split_on c (a @ c # r) = a # split_on c r"
  by (induction a) auto

lemma split_on_ymd:
  assumes "list_all is_digit a" "list_all is_digit b" "list_all is_digit c"
  shows "split_on (CHR ''-'') (a @ ''-'' @ b @ ''-'' @ c) = [a, b, c]"
  using assms by (simp add: split_on_append split_on_no_sep digit_not_hyphen)

lemma ymd_shape:
  assumes "length a = 4" "length b = 2" "length c = 2"
    and "list_all is_digit a" "list_all is_digit b" "list_all is_digit c"
  shows "is_ymd (a @ ''-'' @ b @ ''-'' @ c)"
proof -
  let ?s = "a @ ''-'' @ b @ ''-'' @ c"
  have 1: "length ?s = 10" using assms by simp
  have 2: "take 4 ?s = a" using assms by simp
  have 3: "?s ! 4 = CHR ''-''" using assms(1) by (simp add: nth_append)
  have d5: "drop 5 ?s = b @ ''-'' @ c" using assms(1) by simp
  have 4: "take 2 (drop 5 ?s) = b" unfolding d5 using assms(2) by simp
  have 5: "?s ! 7 = CHR ''-''" using assms(1,2) by (simp add: nth_append)
  have 6: "drop 8 ?s = c" using assms(1,2) by simp
  show ?thesis unfolding is_ymd_def 1 2 3 4 5 6 using assms by simp
qed

lemma str_nat_length_lower: "10 ^ k \<le> n \<Longrightarrow> k < length (str_nat n)"
proof (induction n arbitrary: k rule: str_nat.induct)
  case (1 n)
  show ?case
  proof (cases "n < 10")
    case True
    have "k = 0"
    proof (rule ccontr)
      assume "k \<noteq> 0"
      then have "(10::nat) ^ 1 \<le> 10 ^ k" by (intro power_increasing) simp_all
      with 1(2) True show False by simp
    qed
    with True show ?thesis by (simp add: str_nat.simps [of n])
  next
    case False
    show ?thesis
    proof (cases k)
      case 0
      with False show ?thesis by (simp add: str_nat.simps [of n])
    next
      case (Suc j)
      with 1(2) have "10 ^ j \<le> n div 10" by (simp add: less_eq_div_iff_mult_less_eq)
      with 1(1) False have "j < length (str_nat (n div 10))" by simp
      with False Suc show ?thesis by (simp add: str_nat.simps [of n])
    qed
  qed
qed

lemma str_nat_four_digits:
  assumes "1000 \<le> n" and "n \<le> 9999"
  shows "length (str_nat n) = 4"
proof -
  from assms(2) have "n < 10 ^ 4" by simp
  then have "length (str_nat n) \<le> 4" by (rule str_nat_length) simp
  moreover from assms(1) have "10 ^ 3 \<le> n" by simp
  then have "3 < length (str_nat n)" by (rule str_nat_length_lower)
  ultimately show ?thesis by simp
qed

lemma str_nat_short:
  assumes "n < 1000"
  shows "length (str_nat n) \<le> 3"
proof -
  from assms have "n < 10 ^ 3" by simp
  then show ?thesis by (rule str_nat_length) simp
qed

lemma strftime_Ymd_parts:
  assumes "valid_date d"
  shows "\<exists>a b c. strftime_Ymd d = a @ ''-'' @ b @ ''-'' @ c \<and>
           a = str_nat (year d) \<and> length b = 2 \<and> length c = 2 \<and>
           list_all is_digit a \<and> list_all is_digit b \<and> list_all is_digit c \<and>
           nat_of_digits a = year d \<and> nat_of_digits b = month d \<and> nat_of_digits c = day d"
proof -
  from assms have m: "month d < 10 ^ 2"
    by (simp add: valid_date_def)
  have "days_in_month (year d) (month d) \<le> 31" by (simp add: days_in_month_def)
  with assms have dd: "day d < 10 ^ 2" by (simp add: valid_date_def)
  let ?a = "str_nat (year d)"
  let ?b = "zfill 2 (str_nat (month d))"
  let ?c = "zfill 2 (str_nat (day d))"
  have e: "strftime_Ymd d = ?a @ ''-'' @ ?b @ ''-'' @ ?c" by (simp add: strftime_Ymd_def)
  have lb: "length ?b = 2" using m by (rule zfill_length) simp
  have lc: "length ?c = 2" using dd by (rule zfill_length) simp
  show ?thesis
    apply (rule exI [of _ ?a])
    apply (rule exI [of _ ?b])
    apply (rule exI [of _ ?c])
    apply (simp only: e lb lc zfill_digits zfill_value str_nat_digits nat_of_digits_str_nat
        simp_thms)
    done
qed

lemma strftime_Ymd_length:
  assumes "valid_date d"
  shows "length (strftime_Ymd d) = length (str_nat (year d)) + 6"
proof -
  from strftime_Ymd_parts [OF assms] obtain a b c where
    "strftime_Ymd d = a @ ''-'' @ b @ ''-'' @ c" "a = str_nat (year d)"
    "length b = 2" "length c = 2"
    by blast
  then show ?thesis by simp
qed

lemma strftime_Ymd_is_ymd:
  assumes "valid_date d" and "1000 \<le> year d"
  shows "is_ymd (strftime_Ymd d)"
proof -
  from strftime_Ymd_parts [OF assms(1)] obtain a b c where
    s: "strftime_Ymd d = a @ ''-'' @ b @ ''-'' @ c" and
    a: "a = str_nat (year d)" and
    l: "length b = 2" "length c = 2" and
    g: "list_all is_digit a" "list_all is_digit b" "list_all is_digit c"
    by blast
  from assms have "length (str_nat (year d)) = 4"
    by (intro str_nat_four_digits) (simp_all add: valid_date_def)
  with a have "length a = 4" by simp
  then show ?thesis unfolding s using l g by (rule ymd_shape)
qed

lemma strftime_Ymd_not_ymd:
  assumes "valid_date d" and "year d < 1000"
  shows "\<not> is_ymd (strftime_Ymd d)"
proof -
  from assms(2) have "length (str_nat (year d)) \<le> 3" by (rule str_nat_short)
  with strftime_Ymd_length [OF assms(1)] have "length (strftime_Ymd d) \<noteq> 10" by simp
  then show ?thesis by (simp add: is_ymd_def)
qed

lemma date_of_text_strftime:
  assumes "valid_date d" and "1000 \<le> year d"
  shows "date_of_text (strftime_Ymd d) = Some d"
proof -
  from strftime_Ymd_parts [OF assms(1)] obtain a b c where
    s: "strftime_Ymd d = a @ ''-'' @ b @ ''-'' @ c" and
    a: "a = str_nat (year d)" and
    l: "length b = 2" "length c = 2" and
    g: "list_all is_digit a" "list_all is_digit b" "list_all is_digit c" and
    v: "nat_of_digits a = year d" "nat_of_digits b = month d" "nat_of_digits c = day d"
    by blast
  from assms have "length (str_nat (year d)) = 4"
    by (intro str_nat_four_digits) (simp_all add: valid_date_def)
  with a have la: "length a = 4" by simp
  from la l have ne: "a \<noteq> []" "b \<noteq> []" "c \<noteq> []" by auto
  have sp: "split_on (CHR ''-'') (strftime_Ymd d) = [a, b, c]"
    unfolding s using g by (rule split_on_ymd)
  have r: "\<lparr>year = year d, month = month d, day = day d\<rparr> = d" by simp
  show ?thesis
    by (simp add: date_of_text_def sp digits_ok_def ne g la l v r assms(1))
qed

section \<open>Serialization\<close>

subsection \<open>Entries of the serialized mappings\<close>

lemma find_by_key:
  "distinct (map f xs) \<Longrightarrow> x \<in> set xs \<Longrightarrow> f x = k \<Longrightarrow> find (\<lambda>y. f y = k) xs = Some x"
proof (induction xs)
  case Nil
  then show ?case by simp
next
  case (Cons a xs)
  show ?case
  proof (cases "a = x")
    case True
    with Cons.prems show ?thesis by simp
  next
    case False
    with Cons.prems have x: "x \<in> set xs" by simp
    then have "f x \<in> set (map f xs)" by simp
    with Cons.prems have "f a \<noteq> k" by auto
    with Cons x show ?thesis by simp
  qed
qed

lemma jo_store_users_distinct: "distinct (map user.user_id (users jo_store))"
  by (simp add: jo_store_def jo_def al_def)

lemma jo_store_trips_distinct: "distinct (map trip.trip_id (trips jo_store))"
  by (simp add: jo_store_def jo_trip_def)

lemma Trip_user_jo: "Trip_user jo_store jo_trip = Some jo"
  by (simp add: Trip_user_def jo_store_def jo_trip_def jo_def)

lemma UserTrip_trip_al: "UserTrip_trip jo_store al_joins = Some jo_trip"
  by (simp add: UserTrip_trip_def jo_store_def jo_trip_def al_joins_def)

lemma UserTrip_user_al: "UserTrip_user jo_store al_joins = Some al"
  by (simp add: UserTrip_user_def jo_store_def jo_def al_def al_joins_def)

lemma strftime_jo_trip: "strftime_Ymd (date_of_trip jo_trip) = ''2018-11-13''"
  by (simp add: jo_trip_def strftime_Ymd_def zfill_def str_nat.simps digit_char_def)

lemma valid_date_jo_trip: "valid_date (date_of_trip jo_trip)"
  by (simp add: jo_trip_def valid_date_def days_in_month_def)

text \<open>
  C2: for every User, the mapping returned by \<^verbatim>\<open>User.to_json\<close> has the entry
  \<^verbatim>\<open>'password'\<close>, and its value is the User's password field (the stored hash).
\<close>

theorem User_to_json_includes_password:
  "map_of (User_to_json u) ''password'' = Some (py_str (password u))"
  by (simp add: User_to_json_def)

theorem User_to_json_includes_password_witness:
  "map_of (User_to_json jo) ''password'' = Some (PStr ''$2b$12$hash'')"
  using User_to_json_includes_password [of jo] by (simp add: jo_def py_str_def)

text \<open>
  C10: for every User, the mapping returned by \<^verbatim>\<open>User.to_json\<close> has no entry for the
  phone number: the output is the same whatever \<^verbatim>\<open>phone_number\<close> holds, its keys are the
  nine listed ones, and neither spelling of the column's name is among them.
\<close>

theorem User_to_json_omits_phone_number:
  "User_to_json (u\<lparr>phone_number := p\<rparr>) = User_to_json u \<and>
   map fst (User_to_json u) =
     [''user_id'', ''email'', ''password'', ''fname'', ''lname'', ''userGender'', ''userBio'',
      ''userProfileImg'', ''userSocialMedia''] \<and>
   map_of (User_to_json u) ''phone_number'' = None \<and>
   map_of (User_to_json u) ''phoneNumber'' = None"
  by (simp add: User_to_json_def)

theorem User_to_json_omits_phone_number_witness:
  "User_to_json (al\<lparr>phone_number := None\<rparr>) = User_to_json al \<and>
   phone_number al = Some 4155550100 \<and>
   map_of (User_to_json al) ''phone_number'' = None \<and>
   map_of (User_to_json al) ''phoneNumber'' = None"
  using User_to_json_omits_phone_number [where u = al and p = None] by (simp add: al_def)

text \<open>
  C9: for every Trip, the mapping returned by \<^verbatim>\<open>Trip.to_json\<close> has no entry for the
  active flag: the result is the same whatever \<^verbatim>\<open>is_active\<close> holds, and a returned
  mapping has exactly the fourteen listed keys, none of which names the flag.
\<close>

theorem Trip_to_json_omits_is_active:
  "Trip_to_json s (t\<lparr>is_active := a\<rparr>) = Trip_to_json s t \<and>
   (\<forall>m. Trip_to_json s t = Inr m \<longrightarrow>
      map fst m =
        [''tripId'', ''dateOfTrip'', ''maxPassengers'', ''numPassengers'', ''willingToStop'',
         ''tripCost'', ''origin'', ''time'', ''destination'', ''distanceMeters'',
         ''displayDistance'', ''userAsDriver'', ''userFirstName'', ''userProfileImg''] \<and>
      map_of m ''is_active'' = None \<and> map_of m ''isActive'' = None)"
  by (auto simp: Trip_to_json_def Trip_user_def split: option.splits)

theorem Trip_to_json_omits_is_active_witness:
  "Trip_to_json jo_store (jo_trip\<lparr>is_active := None\<rparr>) = Trip_to_json jo_store jo_trip \<and>
   is_active jo_trip = Some True \<and>
   (\<exists>m. Trip_to_json jo_store jo_trip = Inr m \<and>
      map_of m ''is_active'' = None \<and> map_of m ''isActive'' = None)"
proof -
  have r: "\<exists>m. Trip_to_json jo_store jo_trip = Inr m"
    by (simp add: Trip_to_json_def Trip_user_jo)
  have a: "is_active jo_trip = Some True" by (simp add: jo_trip_def)
  from r a Trip_to_json_omits_is_active [where s = jo_store and t = jo_trip and a = None] show ?thesis by auto
qed

text \<open>
  C1: serializing a Trip flattens the driver's fields into the output. For every Trip whose
  referenced User exists (a row of \<^verbatim>\<open>users\<close> with the Trip's \<^verbatim>\<open>user_id\<close>, identifiers
  being unique), \<^verbatim>\<open>Trip.to_json\<close> returns a mapping with the driver's first name under
  \<^verbatim>\<open>'userFirstName'\<close>, the driver's profile image under \<^verbatim>\<open>'userProfileImg'\<close>, and the
  Trip's own origin, destination, maxPassengers and numPassengers; every value of the
  mapping is a scalar, none a nested object.
\<close>

theorem Trip_to_json_flattens_driver:
  assumes "distinct (map user.user_id (users s))"
    and "u \<in> set (users s)"
    and "user.user_id u = trip.user_id t"
  shows "\<exists>m. Trip_to_json s t = Inr m \<and>
           map_of m ''userFirstName'' = Some (py_str (fname u)) \<and>
           map_of m ''userProfileImg'' = Some (py_str (user_profile_img u)) \<and>
           map_of m ''origin'' = Some (PStr (origin t)) \<and>
           map_of m ''destination'' = Some (PStr (destination t)) \<and>
           map_of m ''maxPassengers'' = Some (PInt (max_passengers t)) \<and>
           map_of m ''numPassengers'' = Some (PInt (num_passengers t)) \<and>
           list_all is_scalar (map snd m)"
proof -
  from assms have "Trip_user s t = Some u"
    unfolding Trip_user_def by (rule find_by_key)
  then show ?thesis
    by (cases "fname u"; cases "user_profile_img u") (simp_all add: Trip_to_json_def py_str_def)
qed

theorem Trip_to_json_flattens_driver_witness:
  "\<exists>m. Trip_to_json jo_store jo_trip = Inr m \<and>
       map_of m ''userFirstName'' = Some (PStr ''Jo'') \<and>
       map_of m ''userProfileImg'' =
         Some (PStr ''https://robohash.org/enimsolutaqui.png?size=50x50&set=set1'') \<and>
       map_of m ''origin'' = Some (PStr ''San Francisco'') \<and>
       map_of m ''destination'' = Some (PStr ''Los Angeles'') \<and>
       map_of m ''maxPassengers'' = Some (PInt 3) \<and>
       map_of m ''numPassengers'' = Some (PInt 1)"
proof -
  have 1: "jo \<in> set (users jo_store)" by (simp add: jo_store_def)
  have 2: "user.user_id jo = trip.user_id jo_trip" by (simp add: jo_def jo_trip_def)
  have f: "py_str (fname jo) = PStr ''Jo''"
    "py_str (user_profile_img jo) =
       PStr ''https://robohash.org/enimsolutaqui.png?size=50x50&set=set1''"
    by (simp_all add: jo_def py_str_def)
  have g: "origin jo_trip = ''San Francisco''" "destination jo_trip = ''Los Angeles''"
    "max_passengers jo_trip = 3" "num_passengers jo_trip = 1"
    by (simp_all add: jo_trip_def)
  from Trip_to_json_flattens_driver [OF jo_store_users_distinct 1 2] show ?thesis
    unfolding f g by blast
qed

text \<open>
  C5: for every UserTrip whose passenger, Trip and the Trip's driver exist (rows with the
  referenced identifiers, identifiers being unique), \<^verbatim>\<open>UserTrip.to_json\<close> returns a
  mapping with the passenger's first name and profile image under \<^verbatim>\<open>'userFirstName'\<close>
  and \<^verbatim>\<open>'userProfileImg'\<close>, and the first name and profile image of the User owning the
  referenced Trip under \<^verbatim>\<open>'driverFirstName'\<close> and \<^verbatim>\<open>'driverProfileImg'\<close>.
\<close>

theorem UserTrip_to_json_passenger_and_driver:
  assumes "distinct (map user.user_id (users s))"
    and "distinct (map trip.trip_id (trips s))"
    and "t \<in> set (trips s)" and "trip.trip_id t = user_trip.trip_id ut"
    and "p \<in> set (users s)" and "user.user_id p = user_trip.user_id ut"
    and "d \<in> set (users s)" and "user.user_id d = trip.user_id t"
  shows "\<exists>m. UserTrip_to_json s ut = Inr m \<and>
           map_of m ''userFirstName'' = Some (py_str (fname p)) \<and>
           map_of m ''userProfileImg'' = Some (py_str (user_profile_img p)) \<and>
           map_of m ''driverFirstName'' = Some (py_str (fname d)) \<and>
           map_of m ''driverProfileImg'' = Some (py_str (user_profile_img d))"
proof -
  from assms(2,3,4) have 1: "UserTrip_trip s ut = Some t"
    unfolding UserTrip_trip_def by (rule find_by_key)
  from assms(1,5,6) have 2: "UserTrip_user s ut = Some p"
    unfolding UserTrip_user_def by (rule find_by_key)
  from assms(1,7,8) have 3: "Trip_user s t = Some d"
    unfolding Trip_user_def by (rule find_by_key)
  show ?thesis by (simp add: UserTrip_to_json_def 1 2 3)
qed

theorem UserTrip_to_json_passenger_and_driver_witness:
  "\<exists>m. UserTrip_to_json jo_store al_joins = Inr m \<and>
       map_of m ''userFirstName'' = Some (PStr ''Al'') \<and>
       map_of m ''userProfileImg'' = Some (PStr ''https://robohash.org/al.png'') \<and>
       map_of m ''driverFirstName'' = Some (PStr ''Jo'') \<and>
       map_of m ''driverProfileImg'' =
         Some (PStr ''https://robohash.org/enimsolutaqui.png?size=50x50&set=set1'')"
proof -
  have 1: "jo_trip \<in> set (trips jo_store)" by (simp add: jo_store_def)
  have 2: "trip.trip_id jo_trip = user_trip.trip_id al_joins"
    by (simp add: jo_trip_def al_joins_def)
  have 3: "al \<in> set (users jo_store)" by (simp add: jo_store_def)
  have 4: "user.user_id al = user_trip.user_id al_joins" by (simp add: al_def al_joins_def)
  have 5: "jo \<in> set (users jo_store)" by (simp add: jo_store_def)
  have 6: "user.user_id jo = trip.user_id jo_trip" by (simp add: jo_def jo_trip_def)
  have f: "py_str (fname al) = PStr ''Al''"
    "py_str (user_profile_img al) = PStr ''https://robohash.org/al.png''"
    "py_str (fname jo) = PStr ''Jo''"
    "py_str (user_profile_img jo) =
       PStr ''https://robohash.org/enimsolutaqui.png?size=50x50&set=set1''"
    by (simp_all add: jo_def al_def py_str_def)
  from UserTrip_to_json_passenger_and_driver
         [OF jo_store_users_distinct jo_store_trips_distinct 1 2 3 4 5 6]
  show ?thesis unfolding f by blast
qed

text \<open>
  C3, as stated: for every Trip and UserTrip whose date-of-trip field holds a calendar
  date, \<^verbatim>\<open>'dateOfTrip'\<close> is a string of the form YYYY-MM-DD. It fails for a date before
  the year 1000: Jo's trip dated 1 January 999 is serialized with \<^verbatim>\<open>'999-01-01'\<close>, which
  has a three-digit year.
\<close>

theorem dateOfTrip_year_999_counterexample:
  "valid_date (date_of_trip trip_of_999) \<and>
   Trip_user jo_store trip_of_999 = Some jo \<and>
   Trip_to_json jo_store trip_of_999 =
     Inr [(''tripId'', PInt 1),
          (''dateOfTrip'', PStr ''999-01-01''),
          (''maxPassengers'', PInt 3),
          (''numPassengers'', PInt 1),
          (''willingToStop'', PBool False),
          (''tripCost'', PInt 10),
          (''origin'', PStr ''San Francisco''),
          (''time'', PStr ''10:00''),
          (''destination'', PStr ''Los Angeles''),
          (''distanceMeters'', PInt 15422),
          (''displayDistance'', PStr ''13 mi''),
          (''userAsDriver'', PInt 1),
          (''userFirstName'', PStr ''Jo''),
          (''userProfileImg'',
             PStr ''https://robohash.org/enimsolutaqui.png?size=50x50&set=set1'')] \<and>
   \<not> is_ymd ''999-01-01''"
proof -
  have v: "valid_date (date_of_trip trip_of_999)"
    by (simp add: trip_of_999_def valid_date_def days_in_month_def)
  have u: "Trip_user jo_store trip_of_999 = Some jo"
    by (simp add: Trip_user_def trip_of_999_def jo_store_def jo_trip_def jo_def)
  have d: "strftime_Ymd (date_of_trip trip_of_999) = ''999-01-01''"
    by (simp add: trip_of_999_def strftime_Ymd_def zfill_def str_nat.simps digit_char_def)
  have f: "py_str (fname jo) = PStr ''Jo''"
    "py_str (user_profile_img jo) =
       PStr ''https://robohash.org/enimsolutaqui.png?size=50x50&set=set1''"
    by (simp_all add: jo_def py_str_def)
  have j: "Trip_to_json jo_store trip_of_999 =
     Inr [(''tripId'', PInt 1),
          (''dateOfTrip'', PStr ''999-01-01''),
          (''maxPassengers'', PInt 3),
          (''numPassengers'', PInt 1),
          (''willingToStop'', PBool False),
          (''tripCost'', PInt 10),
          (''origin'', PStr ''San Francisco''),
          (''time'', PStr ''10:00''),
          (''destination'', PStr ''Los Angeles''),
          (''distanceMeters'', PInt 15422),
          (''displayDistance'', PStr ''13 mi''),
          (''userAsDriver'', PInt 1),
          (''userFirstName'', PStr ''Jo''),
          (''userProfileImg'',
             PStr ''https://robohash.org/enimsolutaqui.png?size=50x50&set=set1'')]"
    by (simp add: Trip_to_json_def u d f) (simp add: trip_of_999_def jo_trip_def)
  have n: "\<not> is_ymd ''999-01-01''" by (simp add: is_ymd_def)
  from v u j n show ?thesis by (intro conjI)
qed

text \<open>
  C3, amended: for every Trip, and every UserTrip, whose date-of-trip field holds a
  calendar date with a year from 1000 to 9999 and whose references resolve, serialization
  yields a \<^verbatim>\<open>'dateOfTrip'\<close> entry that is a string of the form YYYY-MM-DD: four digits, a
  hyphen, two digits, a hyphen, two digits. The string denotes the stored date: read back
  as a date literal it gives that date.
\<close>

theorem to_json_dateOfTrip_YYYY_MM_DD:
  "(valid_date (date_of_trip t) \<and> 1000 \<le> year (date_of_trip t) \<and>
    Trip_user s t = Some u \<longrightarrow>
      (\<exists>m str. Trip_to_json s t = Inr m \<and> map_of m ''dateOfTrip'' = Some (PStr str) \<and>
         is_ymd str \<and> date_of_text str = Some (date_of_trip t))) \<and>
   (UserTrip_trip s ut = Some t' \<and> valid_date (date_of_trip t') \<and>
    1000 \<le> year (date_of_trip t') \<and>
    UserTrip_user s ut = Some p \<and> Trip_user s t' = Some d \<longrightarrow>
      (\<exists>m str. UserTrip_to_json s ut = Inr m \<and> map_of m ''dateOfTrip'' = Some (PStr str) \<and>
         is_ymd str \<and> date_of_text str = Some (date_of_trip t')))"
proof (intro conjI impI)
  assume a: "valid_date (date_of_trip t) \<and> 1000 \<le> year (date_of_trip t) \<and>
    Trip_user s t = Some u"
  then have "is_ymd (strftime_Ymd (date_of_trip t))"
    and "date_of_text (strftime_Ymd (date_of_trip t)) = Some (date_of_trip t)"
    by (simp_all add: strftime_Ymd_is_ymd date_of_text_strftime)
  with a show "\<exists>m str. Trip_to_json s t = Inr m \<and> map_of m ''dateOfTrip'' = Some (PStr str) \<and>
         is_ymd str \<and> date_of_text str = Some (date_of_trip t)"
    by (simp add: Trip_to_json_def)
next
  assume a: "UserTrip_trip s ut = Some t' \<and> valid_date (date_of_trip t') \<and>
    1000 \<le> year (date_of_trip t') \<and>
    UserTrip_user s ut = Some p \<and> Trip_user s t' = Some d"
  then have "is_ymd (strftime_Ymd (date_of_trip t'))"
    and "date_of_text (strftime_Ymd (date_of_trip t')) = Some (date_of_trip t')"
    by (simp_all add: strftime_Ymd_is_ymd date_of_text_strftime)
  with a show "\<exists>m str. UserTrip_to_json s ut = Inr m \<and>
         map_of m ''dateOfTrip'' = Some (PStr str) \<and>
         is_ymd str \<and> date_of_text str = Some (date_of_trip t')"
    by (simp add: UserTrip_to_json_def)
qed

theorem to_json_dateOfTrip_YYYY_MM_DD_witness:
  "valid_date (date_of_trip jo_trip) \<and> 1000 \<le> year (date_of_trip jo_trip) \<and>
   Trip_user jo_store jo_trip = Some jo \<and>
   UserTrip_trip jo_store al_joins = Some jo_trip \<and>
   UserTrip_user jo_store al_joins = Some al \<and>
   (\<exists>m. Trip_to_json jo_store jo_trip = Inr m \<and>
      map_of m ''dateOfTrip'' = Some (PStr ''2018-11-13'')) \<and>
   (\<exists>m. UserTrip_to_json jo_store al_joins = Inr m \<and>
      map_of m ''dateOfTrip'' = Some (PStr ''2018-11-13'')) \<and>
   is_ymd ''2018-11-13''"
proof -
  have y: "1000 \<le> year (date_of_trip jo_trip)" by (simp add: jo_trip_def)
  note h = valid_date_jo_trip y Trip_user_jo UserTrip_trip_al UserTrip_user_al
  from to_json_dateOfTrip_YYYY_MM_DD
         [where t = jo_trip and s = jo_store and u = jo and ut = al_joins and t' = jo_trip
            and p = al and d = jo]
  h
  have "\<exists>m str. Trip_to_json jo_store jo_trip = Inr m \<and>
          map_of m ''dateOfTrip'' = Some (PStr str) \<and> is_ymd str"
    by blast
  then have i: "is_ymd ''2018-11-13''"
    by (simp add: Trip_to_json_def Trip_user_jo strftime_jo_trip)
  have "(\<exists>m. Trip_to_json jo_store jo_trip = Inr m \<and>
      map_of m ''dateOfTrip'' = Some (PStr ''2018-11-13''))"
    by (simp add: Trip_to_json_def Trip_user_jo strftime_jo_trip)
  moreover have "(\<exists>m. UserTrip_to_json jo_store al_joins = Inr m \<and>
      map_of m ''dateOfTrip'' = Some (PStr ''2018-11-13''))"
    by (simp add: UserTrip_to_json_def UserTrip_trip_al UserTrip_user_al Trip_user_jo
        strftime_jo_trip)
  ultimately show ?thesis using i by (simp add: h)
qed

subsection \<open>Keys and values\<close>

lemma is_scalar_py_str: "is_scalar (py_str x)"
  by (cases x) (simp_all add: py_str_def)

lemma user_id_not_camel_case: "\<not> is_camel_case ''user_id''"
  by code_simp

lemma User_keys_camel_case:
  "list_all is_camel_case
     [''email'', ''password'', ''fname'', ''lname'', ''userGender'', ''userBio'',
      ''userProfileImg'', ''userSocialMedia'']"
  by code_simp

lemma Trip_keys_camel_case:
  "list_all is_camel_case
     [''tripId'', ''dateOfTrip'', ''maxPassengers'', ''numPassengers'', ''willingToStop'',
      ''tripCost'', ''origin'', ''time'', ''destination'', ''distanceMeters'',
      ''displayDistance'', ''userAsDriver'', ''userFirstName'', ''userProfileImg'']"
  by code_simp

lemma UserTrip_keys_camel_case:
  "list_all is_camel_case
     [''userTripId'', ''tripId'', ''userId'', ''dateOfTrip'', ''userFirstName'',
      ''userProfileImg'', ''userBio'', ''origin'', ''time'', ''destination'',
      ''displayDistance'', ''distanceMeters'', ''numPassengers'', ''driverFirstName'',
      ''driverProfileImg'', ''driverBio'']"
  by code_simp

lemma User_to_json_keys:
  "map fst (User_to_json u) =
     [''user_id'', ''email'', ''password'', ''fname'', ''lname'', ''userGender'', ''userBio'',
      ''userProfileImg'', ''userSocialMedia'']"
  by (simp add: User_to_json_def)

lemma User_to_json_scalar: "list_all is_scalar (map snd (User_to_json u))"
  by (simp add: User_to_json_def is_scalar_py_str)

lemma Trip_to_json_shape:
  assumes "Trip_user s t = Some d"
  shows "\<exists>m. Trip_to_json s t = Inr m \<and> list_all is_camel_case (map fst m) \<and>
           list_all is_scalar (map snd m)"
proof -
  let ?m = "[(''tripId'', PInt (trip.trip_id t)),
             (''dateOfTrip'', PStr (strftime_Ymd (date_of_trip t))),
             (''maxPassengers'', PInt (max_passengers t)),
             (''numPassengers'', PInt (num_passengers t)),
             (''willingToStop'', PBool (willing_to_stop t)),
             (''tripCost'', PInt (trip_cost t)),
             (''origin'', PStr (origin t)),
             (''time'', PStr (time t)),
             (''destination'', PStr (destination t)),
             (''distanceMeters'', PInt (distance_meters t)),
             (''displayDistance'', PStr (display_distance t)),
             (''userAsDriver'', PInt (trip.user_id t)),
             (''userFirstName'', py_str (fname d)),
             (''userProfileImg'', py_str (user_profile_img d))]"
  have r: "Trip_to_json s t = Inr ?m" using assms by (simp add: Trip_to_json_def)
  have k: "list_all is_camel_case (map fst ?m)"
    using Trip_keys_camel_case by (simp only: list.map fst_conv)
  have v: "list_all is_scalar (map snd ?m)" by (simp add: is_scalar_py_str)
  from r k v show ?thesis by blast
qed

lemma UserTrip_to_json_shape:
  assumes "UserTrip_trip s ut = Some t" "UserTrip_user s ut = Some p" "Trip_user s t = Some d"
  shows "\<exists>m. UserTrip_to_json s ut = Inr m \<and> list_all is_camel_case (map fst m) \<and>
           list_all is_scalar (map snd m)"
proof -
  let ?m = "[(''userTripId'', PInt (user_trip_id ut)),
             (''tripId'', PInt (user_trip.trip_id ut)),
             (''userId'', PInt (user_trip.user_id ut)),
             (''dateOfTrip'', PStr (strftime_Ymd (date_of_trip t))),
             (''userFirstName'', py_str (fname p)),
             (''userProfileImg'', py_str (user_profile_img p)),
             (''userBio'', py_str (user_bio p)),
             (''origin'', PStr (origin t)),
             (''time'', PStr (time t)),
             (''destination'', PStr (destination t)),
             (''displayDistance'', PStr (display_distance t)),
             (''distanceMeters'', PInt (distance_meters t)),
             (''numPassengers'', PInt (num_passengers t)),
             (''driverFirstName'', py_str (fname d)),
             (''driverProfileImg'', py_str (user_profile_img d)),
             (''driverBio'', py_str (user_bio d))]"
  have r: "UserTrip_to_json s ut = Inr ?m" using assms by (simp add: UserTrip_to_json_def)
  have k: "list_all is_camel_case (map fst ?m)"
    using UserTrip_keys_camel_case by (simp only: list.map fst_conv)
  have v: "list_all is_scalar (map snd ?m)" by (simp add: is_scalar_py_str)
  from r k v show ?thesis by blast
qed

text \<open>
  Apart from the first key of \<^verbatim>\<open>User.to_json\<close>, the serializers keep to camelCase keys
  and scalar values.
\<close>

lemma to_json_keys_and_values:
  "list_all is_scalar (map snd (User_to_json u)) \<and>
   list_all is_camel_case (filter (\<lambda>k. k \<noteq> ''user_id'') (map fst (User_to_json u))) \<and>
   (Trip_user s t = Some d \<longrightarrow>
      (\<exists>m. Trip_to_json s t = Inr m \<and> list_all is_camel_case (map fst m) \<and>
         list_all is_scalar (map snd m))) \<and>
   (UserTrip_trip s ut = Some t' \<and> UserTrip_user s ut = Some p \<and> Trip_user s t' = Some d' \<longrightarrow>
      (\<exists>m. UserTrip_to_json s ut = Inr m \<and> list_all is_camel_case (map fst m) \<and>
         list_all is_scalar (map snd m)))"
proof (intro conjI impI)
  show "list_all is_scalar (map snd (User_to_json u))" by (rule User_to_json_scalar)
next
  have "filter (\<lambda>k. k \<noteq> ''user_id'') (map fst (User_to_json u)) =
          [''email'', ''password'', ''fname'', ''lname'', ''userGender'', ''userBio'',
           ''userProfileImg'', ''userSocialMedia'']"
    by (simp add: User_to_json_keys)
  then show "list_all is_camel_case (filter (\<lambda>k. k \<noteq> ''user_id'') (map fst (User_to_json u)))"
    using User_keys_camel_case by (simp only:)
next
  assume "Trip_user s t = Some d"
  then show "\<exists>m. Trip_to_json s t = Inr m \<and> list_all is_camel_case (map fst m) \<and>
         list_all is_scalar (map snd m)"
    by (rule Trip_to_json_shape)
next
  assume "UserTrip_trip s ut = Some t' \<and> UserTrip_user s ut = Some p \<and> Trip_user s t' = Some d'"
  then show "\<exists>m. UserTrip_to_json s ut = Inr m \<and> list_all is_camel_case (map fst m) \<and>
         list_all is_scalar (map snd m)"
    using UserTrip_to_json_shape by blast
qed

text \<open>
  C4: the serialized mapping of every User, Trip and UserTrip is said to have camelCase
  keys only and scalar values only. \<^verbatim>\<open>User.to_json\<close> breaks it: the mapping of the user
  Jo has the identifier under the key \<^verbatim>\<open>'user_id'\<close>, which is not camelCase, so not all
  of its keys are; the same literal writes four other columns in camelCase, and
  \<^verbatim>\<open>UserTrip.to_json\<close> writes this column as \<^verbatim>\<open>'userId'\<close>.
\<close>

theorem User_to_json_user_id_not_camelCase:
  "map_of (User_to_json jo) ''user_id'' = Some (PInt 1) \<and>
   \<not> is_camel_case ''user_id'' \<and>
   \<not> list_all is_camel_case (map fst (User_to_json jo))"
proof -
  have 1: "map_of (User_to_json jo) ''user_id'' = Some (PInt 1)"
    by (simp add: User_to_json_def jo_def)
  have 2: "\<not> list_all is_camel_case (map fst (User_to_json jo))"
    using user_id_not_camel_case by (simp add: User_to_json_keys)
  from 1 user_id_not_camel_case 2 show ?thesis by (intro conjI)
qed

subsection \<open>Serialization as a projection\<close>

text \<open>The steps of a call, run on a state.\<close>

lemma ret_run: "ret x st = (Inr x, st)"
  by (simp add: ret_def)

lemma bind_ret: "bind_a (ret x) g st = g x st"
  by (simp add: bind_a_def ret_def)

lemma bind_reads: "bind_a (reads f) g st = g (f st) st"
  by (simp add: bind_a_def reads_def)

lemma bind_getattr_Some: "bind_a (getattr (Some v) f) g st = g (f v) st"
  by (simp add: bind_a_def getattr_def)

lemma bind_getattr_None: "bind_a (getattr None f) g st = (Inl AttributeError, st)"
  by (simp add: bind_a_def getattr_def)

lemma bind_getrel_Some: "bind_a (getrel (Some v) rel) g st = g (rel (snd st) v) st"
  by (simp add: bind_a_def getrel_def)

lemmas call_steps =
  ret_run bind_ret bind_reads bind_getattr_Some bind_getattr_None bind_getrel_Some

lemma User_to_json_call_run: "User_to_json_call (u, s) = (Inr (User_to_json u), (u, s))"
  by (simp add: User_to_json_call_def User_to_json_def call_steps)

lemma Trip_to_json_call_run: "Trip_to_json_call (t, s) = (Trip_to_json s t, (t, s))"
  by (cases "Trip_user s t") (simp_all add: Trip_to_json_call_def Trip_to_json_def call_steps)

lemma UserTrip_to_json_call_run:
  "UserTrip_to_json_call (ut, s) = (UserTrip_to_json s ut, (ut, s))"
proof (cases "UserTrip_trip s ut")
  case None
  then show ?thesis
    by (simp add: UserTrip_to_json_call_def UserTrip_to_json_def call_steps)
next
  case t: (Some t)
  show ?thesis
  proof (cases "UserTrip_user s ut")
    case None
    with t show ?thesis
      by (simp add: UserTrip_to_json_call_def UserTrip_to_json_def call_steps)
  next
    case p: (Some p)
    show ?thesis
    proof (cases "Trip_user s t")
      case None
      with t p show ?thesis
        by (simp add: UserTrip_to_json_call_def UserTrip_to_json_def call_steps)
    next
      case (Some d)
      with t p show ?thesis
        by (simp add: UserTrip_to_json_call_def UserTrip_to_json_def call_steps)
    qed
  qed
qed

text \<open>
  The result of a serializer is determined by the fields it reads: two entities, in two
  stores, that agree on these fields (their own and those of the rows their relationships
  resolve to) serialize to the same result.
\<close>

lemma to_json_depends_only_on_fields_read:
  "(user.user_id u = user.user_id u' \<and> email u = email u' \<and> password u = password u' \<and>
    fname u = fname u' \<and> lname u = lname u' \<and> user_gender u = user_gender u' \<and>
    user_bio u = user_bio u' \<and> user_profile_img u = user_profile_img u' \<and>
    user_social_media u = user_social_media u' \<longrightarrow>
      User_to_json u = User_to_json u') \<and>
   (trip.trip_id t = trip.trip_id t' \<and> date_of_trip t = date_of_trip t' \<and>
    max_passengers t = max_passengers t' \<and> num_passengers t = num_passengers t' \<and>
    willing_to_stop t = willing_to_stop t' \<and> trip_cost t = trip_cost t' \<and>
    origin t = origin t' \<and> time t = time t' \<and> destination t = destination t' \<and>
    distance_meters t = distance_meters t' \<and> display_distance t = display_distance t' \<and>
    trip.user_id t = trip.user_id t' \<and>
    map_option (\<lambda>d. (fname d, user_profile_img d)) (Trip_user s t) =
      map_option (\<lambda>d. (fname d, user_profile_img d)) (Trip_user s' t') \<longrightarrow>
      Trip_to_json s t = Trip_to_json s' t') \<and>
   (user_trip_id ut = user_trip_id ut' \<and> user_trip.trip_id ut = user_trip.trip_id ut' \<and>
    user_trip.user_id ut = user_trip.user_id ut' \<and>
    map_option trip_fields_read (UserTrip_trip s ut) =
      map_option trip_fields_read (UserTrip_trip s' ut') \<and>
    map_option user_fields_read (UserTrip_user s ut) =
      map_option user_fields_read (UserTrip_user s' ut') \<and>
    map_option user_fields_read (Option.bind (UserTrip_trip s ut) (Trip_user s)) =
      map_option user_fields_read (Option.bind (UserTrip_trip s' ut') (Trip_user s')) \<longrightarrow>
      UserTrip_to_json s ut = UserTrip_to_json s' ut')"
proof (intro conjI impI)
  assume "user.user_id u = user.user_id u' \<and> email u = email u' \<and> password u = password u' \<and>
    fname u = fname u' \<and> lname u = lname u' \<and> user_gender u = user_gender u' \<and>
    user_bio u = user_bio u' \<and> user_profile_img u = user_profile_img u' \<and>
    user_social_media u = user_social_media u'"
  then show "User_to_json u = User_to_json u'" by (simp add: User_to_json_def)
next
  assume a: "trip.trip_id t = trip.trip_id t' \<and> date_of_trip t = date_of_trip t' \<and>
    max_passengers t = max_passengers t' \<and> num_passengers t = num_passengers t' \<and>
    willing_to_stop t = willing_to_stop t' \<and> trip_cost t = trip_cost t' \<and>
    origin t = origin t' \<and> time t = time t' \<and> destination t = destination t' \<and>
    distance_meters t = distance_meters t' \<and> display_distance t = display_distance t' \<and>
    trip.user_id t = trip.user_id t' \<and>
    map_option (\<lambda>d. (fname d, user_profile_img d)) (Trip_user s t) =
      map_option (\<lambda>d. (fname d, user_profile_img d)) (Trip_user s' t')"
  show "Trip_to_json s t = Trip_to_json s' t'"
  proof (cases "Trip_user s t")
    case None
    with a have "Trip_user s' t' = None" by simp
    with None show ?thesis by (simp add: Trip_to_json_def)
  next
    case (Some d)
    with a obtain d' where d': "Trip_user s' t' = Some d'"
      and "fname d = fname d'" "user_profile_img d = user_profile_img d'"
      by (cases "Trip_user s' t'") auto
    with a Some show ?thesis by (simp add: Trip_to_json_def)
  qed
next
  assume a: "user_trip_id ut = user_trip_id ut' \<and> user_trip.trip_id ut = user_trip.trip_id ut' \<and>
    user_trip.user_id ut = user_trip.user_id ut' \<and>
    map_option trip_fields_read (UserTrip_trip s ut) =
      map_option trip_fields_read (UserTrip_trip s' ut') \<and>
    map_option user_fields_read (UserTrip_user s ut) =
      map_option user_fields_read (UserTrip_user s' ut') \<and>
    map_option user_fields_read (Option.bind (UserTrip_trip s ut) (Trip_user s)) =
      map_option user_fields_read (Option.bind (UserTrip_trip s' ut') (Trip_user s'))"
  show "UserTrip_to_json s ut = UserTrip_to_json s' ut'"
  proof (cases "UserTrip_trip s ut")
    case None
    with a have "UserTrip_trip s' ut' = None" by simp
    with None show ?thesis by (simp add: UserTrip_to_json_def)
  next
    case t: (Some x)
    with a obtain x' where x': "UserTrip_trip s' ut' = Some x'"
      and xr: "trip_fields_read x = trip_fields_read x'"
      by (cases "UserTrip_trip s' ut'") auto
    show ?thesis
    proof (cases "UserTrip_user s ut")
      case None
      with a have "UserTrip_user s' ut' = None" by simp
      with None t x' show ?thesis by (simp add: UserTrip_to_json_def)
    next
      case p: (Some y)
      with a obtain y' where y': "UserTrip_user s' ut' = Some y'"
        and yr: "user_fields_read y = user_fields_read y'"
        by (cases "UserTrip_user s' ut'") auto
      show ?thesis
      proof (cases "Trip_user s x")
        case None
        with a t x' have "Trip_user s' x' = None" by simp
        with None t x' p y' show ?thesis by (simp add: UserTrip_to_json_def)
      next
        case d: (Some z)
        with a t x' obtain z' where z': "Trip_user s' x' = Some z'"
          and zr: "user_fields_read z = user_fields_read z'"
          by (cases "Trip_user s' x'") auto
        from a xr yr zr t x' p y' d z' show ?thesis
          by (simp add: UserTrip_to_json_def trip_fields_read_def user_fields_read_def)
      qed
    qed
  qed
qed

text \<open>
  C8: serialization has no side effects. For every User, Trip and UserTrip, in every
  store, the call of \<^verbatim>\<open>to_json\<close> ends in the state it started in: the receiver and every
  row of the store have the same value in every field after the call as before, and the
  value returned is the projection (the mapping, or the \<^verbatim>\<open>AttributeError\<close>). The output
  depends only on the fields read.
\<close>

theorem to_json_no_side_effects:
  "User_to_json_call (u, s) = (Inr (User_to_json u), (u, s)) \<and>
   Trip_to_json_call (t, s) = (Trip_to_json s t, (t, s)) \<and>
   UserTrip_to_json_call (ut, s) = (UserTrip_to_json s ut, (ut, s)) \<and>
   (user.user_id u = user.user_id u' \<and> email u = email u' \<and> password u = password u' \<and>
    fname u = fname u' \<and> lname u = lname u' \<and> user_gender u = user_gender u' \<and>
    user_bio u = user_bio u' \<and> user_profile_img u = user_profile_img u' \<and>
    user_social_media u = user_social_media u' \<longrightarrow>
      User_to_json u = User_to_json u') \<and>
   (trip.trip_id t = trip.trip_id t' \<and> date_of_trip t = date_of_trip t' \<and>
    max_passengers t = max_passengers t' \<and> num_passengers t = num_passengers t' \<and>
    willing_to_stop t = willing_to_stop t' \<and> trip_cost t = trip_cost t' \<and>
    origin t = origin t' \<and> time t = time t' \<and> destination t = destination t' \<and>
    distance_meters t = distance_meters t' \<and> display_distance t = display_distance t' \<and>
    trip.user_id t = trip.user_id t' \<and>
    map_option (\<lambda>d. (fname d, user_profile_img d)) (Trip_user s t) =
      map_option (\<lambda>d. (fname d, user_profile_img d)) (Trip_user s' t') \<longrightarrow>
      Trip_to_json s t = Trip_to_json s' t') \<and>
   (user_trip_id ut = user_trip_id ut' \<and> user_trip.trip_id ut = user_trip.trip_id ut' \<and>
    user_trip.user_id ut = user_trip.user_id ut' \<and>
    map_option trip_fields_read (UserTrip_trip s ut) =
      map_option trip_fields_read (UserTrip_trip s' ut') \<and>
    map_option user_fields_read (UserTrip_user s ut) =
      map_option user_fields_read (UserTrip_user s' ut') \<and>
    map_option user_fields_read (Option.bind (UserTrip_trip s ut) (Trip_user s)) =
      map_option user_fields_read (Option.bind (UserTrip_trip s' ut') (Trip_user s')) \<longrightarrow>
      UserTrip_to_json s ut = UserTrip_to_json s' ut')"
proof -
  note d = to_json_depends_only_on_fields_read
             [where u = u and u' = u' and t = t and t' = t' and s = s and s' = s'
                and ut = ut and ut' = ut']
  show ?thesis
    apply (intro conjI)
         apply (rule User_to_json_call_run)
        apply (rule Trip_to_json_call_run)
       apply (rule UserTrip_to_json_call_run)
      apply (rule d [THEN conjunct1])
     apply (rule d [THEN conjunct2, THEN conjunct1])
    apply (rule d [THEN conjunct2, THEN conjunct2])
    done
qed

theorem to_json_no_side_effects_witness:
  "snd (User_to_json_call (al\<lparr>phone_number := None\<rparr>, jo_store\<lparr>users_seq := 10\<rparr>)) =
     (al\<lparr>phone_number := None\<rparr>, jo_store\<lparr>users_seq := 10\<rparr>) \<and>
   snd (Trip_to_json_call (jo_trip\<lparr>is_active := None\<rparr>, jo_store\<lparr>users_seq := 10\<rparr>)) =
     (jo_trip\<lparr>is_active := None\<rparr>, jo_store\<lparr>users_seq := 10\<rparr>) \<and>
   snd (UserTrip_to_json_call (al_joins, jo_store\<lparr>users_seq := 10\<rparr>)) =
     (al_joins, jo_store\<lparr>users_seq := 10\<rparr>) \<and>
   phone_number (al\<lparr>phone_number := None\<rparr>) \<noteq> phone_number al \<and>
   User_to_json (al\<lparr>phone_number := None\<rparr>) = User_to_json al \<and>
   is_active (jo_trip\<lparr>is_active := None\<rparr>) \<noteq> is_active jo_trip \<and>
   Trip_to_json (jo_store\<lparr>users_seq := 10\<rparr>) (jo_trip\<lparr>is_active := None\<rparr>) =
     Trip_to_json jo_store jo_trip \<and>
   UserTrip_to_json (jo_store\<lparr>users_seq := 10\<rparr>) al_joins =
     UserTrip_to_json jo_store al_joins"
proof -
  let ?s = "jo_store\<lparr>users_seq := 10\<rparr>"
  have r: "Trip_user ?s (jo_trip\<lparr>is_active := None\<rparr>) = Trip_user jo_store jo_trip"
    "UserTrip_trip ?s al_joins = UserTrip_trip jo_store al_joins"
    "UserTrip_user ?s al_joins = UserTrip_user jo_store al_joins"
    "Trip_user ?s jo_trip = Trip_user jo_store jo_trip"
    by (simp_all add: Trip_user_def UserTrip_trip_def UserTrip_user_def)
  have n: "phone_number al = Some 4155550100" "is_active jo_trip = Some True"
    by (simp_all add: al_def jo_trip_def)
  from to_json_no_side_effects
         [where u = "al\<lparr>phone_number := None\<rparr>" and u' = al
            and t = "jo_trip\<lparr>is_active := None\<rparr>" and t' = jo_trip
            and s = ?s and s' = jo_store and ut = al_joins and ut' = al_joins]
  show ?thesis by (simp add: r n UserTrip_trip_al)
qed

section \<open>The session and the seeder\<close>

subsection \<open>Creating a UserTrip\<close>

lemma bind_e_InrE:
  assumes "bind_e m f = Inr x"
  obtains y where "m = Inr y" and "f y = Inr x"
  using assms by (cases m) (simp_all add: bind_e_def)

lemma insert_user_trips: "insert_user kw s = Inr s' \<Longrightarrow> trips s' = trips s"
  by (auto simp: insert_user_def elim!: bind_e_InrE split: prod.splits if_splits)

lemma insert_user_trip_trips: "insert_user_trip kw s = Inr s' \<Longrightarrow> trips s' = trips s"
  by (auto simp: insert_user_trip_def elim!: bind_e_InrE split: prod.splits if_splits)

lemma insert_trip_trips: "insert_trip kw s = Inr s' \<Longrightarrow> \<exists>t. trips s' = trips s @ [t]"
  by (auto simp: insert_trip_def elim!: bind_e_InrE split: prod.splits if_splits)

lemma insert_row_trips:
  "insert_row p s = Inr s' \<Longrightarrow>
     (if is_new_trip p then \<exists>t. trips s' = trips s @ [t] else trips s' = trips s)"
  by (cases p) (simp_all add: insert_user_trips insert_trip_trips insert_user_trip_trips)

lemma flush_trips:
  "flush ps s = Inr s' \<Longrightarrow>
     \<exists>new. trips s' = trips s @ new \<and> length new = length (filter is_new_trip ps)"
proof (induction ps arbitrary: s)
  case Nil
  then show ?case by simp
next
  case (Cons p ps)
  from Cons.prems obtain s1 where 1: "insert_row p s = Inr s1" and 2: "flush ps s1 = Inr s'"
    by (auto elim: bind_e_InrE)
  from Cons.IH [OF 2] obtain new where
    n: "trips s' = trips s1 @ new" "length new = length (filter is_new_trip ps)"
    by blast
  show ?case
  proof (cases "is_new_trip p")
    case True
    with insert_row_trips [OF 1] obtain t where "trips s1 = trips s @ [t]" by auto
    with n True show ?thesis by simp
  next
    case False
    with insert_row_trips [OF 1] have "trips s1 = trips s" by simp
    with n False show ?thesis by simp
  qed
qed

lemma not_user_and_trip: "(is_new_user x \<and> is_new_trip x) = False"
  by (cases x) simp_all

lemma not_user_trip_and_trip: "(is_new_user_trip x \<and> is_new_trip x) = False"
  by (cases x) simp_all

lemma session_commit_trips:
  assumes "session_commit s = Inr s'"
  shows "\<exists>new. trips s' = trips s @ new \<and>
           length new = length (filter is_new_trip (session_new s))"
proof -
  let ?ps = "filter is_new_user (session_new s) @ filter is_new_trip (session_new s) @
             filter is_new_user_trip (session_new s)"
  from assms have "flush ?ps (s\<lparr>session_new := []\<rparr>) = Inr s'"
    by (simp add: session_commit_def Let_def)
  from flush_trips [OF this] obtain new where
    n: "trips s' = trips s @ new" and l: "length new = length (filter is_new_trip ?ps)"
    by auto
  from l have "length new = length (filter is_new_trip (session_new s))"
    by (simp add: not_user_and_trip not_user_trip_and_trip)
  with n show ?thesis by blast
qed

lemma enroll_attrs:
  "attr [(''trip_id'', PInt 1), (''user_id'', PInt 1)] ''trip_id'' = PInt 1"
  "attr [(''trip_id'', PInt 1), (''user_id'', PInt 1)] ''user_id'' = PInt 1"
  "attr [(''trip_id'', PInt 1), (''user_id'', PInt 1)] ''user_trip_id'' = PNone"
  by (simp_all add: attr_def)

lemma enroll_row:
  "make_user_trip 2 [(''trip_id'', PInt 1), (''user_id'', PInt 1)] =
     Inr \<lparr>user_trip_id = 2, trip_id = 1, user_id = 1\<rparr>"
  by (simp add: make_user_trip_def enroll_attrs bind_e_def int4_ok_def not_null_def)

lemma enroll_insert:
  "insert_user_trip [(''trip_id'', PInt 1), (''user_id'', PInt 1)] jo_store =
     Inr (jo_store\<lparr>user_trips := [al_joins, \<lparr>user_trip_id = 2, trip_id = 1, user_id = 1\<rparr>],
                   user_trips_seq := 3\<rparr>)"
  by (simp add: insert_user_trip_def enroll_attrs enroll_row bind_e_def next_id_def
      jo_store_def al_joins_def jo_trip_def jo_def al_def)

lemma enroll_jo_store:
  "session_commit
     (session_add (NewUserTrip [(''trip_id'', PInt 1), (''user_id'', PInt 1)]) jo_store) =
   Inr (jo_store\<lparr>user_trips := [al_joins, \<lparr>user_trip_id = 2, trip_id = 1, user_id = 1\<rparr>],
                 user_trips_seq := 3\<rparr>)"
proof -
  have n: "session_new jo_store = []" by (simp add: jo_store_def)
  have e: "jo_store\<lparr>session_new := []\<rparr> = jo_store" by (simp add: jo_store_def)
  show ?thesis
    by (simp add: session_commit_def session_add_def n e enroll_insert bind_e_def)
qed

text \<open>
  C7: creating a UserTrip does not modify the referenced Trip's \<^verbatim>\<open>num_passengers\<close>.
  When the commit that inserts a new UserTrip succeeds, every Trip row of the store is
  as it was before, field by field; if no new Trip awaits the same commit, the table
  \<^verbatim>\<open>trips\<close> is unchanged, hence so is every \<^verbatim>\<open>num_passengers\<close>.
\<close>

theorem UserTrip_creation_keeps_num_passengers:
  assumes "session_commit (session_add (NewUserTrip kw) s) = Inr s'"
  shows "take (length (trips s)) (trips s') = trips s \<and>
         (filter is_new_trip (session_new s) = [] \<longrightarrow>
            trips s' = trips s \<and>
            map num_passengers (trips s') = map num_passengers (trips s))"
proof -
  let ?s = "session_add (NewUserTrip kw) s"
  have t: "trips ?s = trips s" by (simp add: session_add_def)
  have f: "filter is_new_trip (session_new ?s) = filter is_new_trip (session_new s)"
    by (simp add: session_add_def)
  from session_commit_trips [OF assms] obtain new where
    n: "trips s' = trips s @ new" and
    l: "length new = length (filter is_new_trip (session_new s))"
    unfolding t f by blast
  from n have 1: "take (length (trips s)) (trips s') = trips s" by simp
  have 2: "trips s' = trips s" if "filter is_new_trip (session_new s) = []"
    using n l that by simp
  from 1 2 show ?thesis by simp
qed

theorem UserTrip_creation_keeps_num_passengers_witness:
  "\<exists>s'. session_commit
          (session_add (NewUserTrip [(''trip_id'', PInt 1), (''user_id'', PInt 1)]) jo_store) =
        Inr s' \<and>
        length (user_trips s') = Suc (length (user_trips jo_store)) \<and>
        trips s' = trips jo_store \<and>
        map num_passengers (trips s') = [1]"
proof -
  let ?s' = "jo_store\<lparr>user_trips := [al_joins, \<lparr>user_trip_id = 2, trip_id = 1, user_id = 1\<rparr>],
                      user_trips_seq := 3\<rparr>"
  have n: "filter is_new_trip (session_new jo_store) = []" by (simp add: jo_store_def)
  have m: "map num_passengers (trips jo_store) = [1]" by (simp add: jo_store_def jo_trip_def)
  have l: "length (user_trips ?s') = Suc (length (user_trips jo_store))"
    by (simp add: jo_store_def)
  note c = UserTrip_creation_keeps_num_passengers
             [OF enroll_jo_store, THEN conjunct2, THEN mp, OF n]
  have t: "trips ?s' = trips jo_store" by (rule c [THEN conjunct1])
  have p: "map num_passengers (trips ?s') = [1]" using c [THEN conjunct2] m by (simp only:)
  have "session_commit
          (session_add (NewUserTrip [(''trip_id'', PInt 1), (''user_id'', PInt 1)]) jo_store) =
        Inr ?s' \<and>
        length (user_trips ?s') = Suc (length (user_trips jo_store)) \<and>
        trips ?s' = trips jo_store \<and>
        map num_passengers (trips ?s') = [1]"
    using enroll_jo_store l t p by (intro conjI)
  then show ?thesis by (rule exI [of _ ?s'])
qed

subsection \<open>Seeding the example data\<close>

lemma make_trip_needs_time:
  assumes "attr kw ''time'' = PNone"
  shows "make_trip pk kw \<noteq> Inr t"
proof
  assume "make_trip pk kw = Inr t"
  then obtain c_time n_time where "col_string None (attr kw ''time'') = Inr c_time"
    and "not_null c_time = Inr (n_time :: string)"
    unfolding make_trip_def by (elim bind_e_InrE) blast
  with assms show False by (simp add: not_null_def)
qed

lemma insert_trip_needs_time:
  assumes "attr kw ''time'' = PNone"
  shows "\<exists>e. insert_trip kw s = Inl e"
proof (cases "insert_trip kw s")
  case (Inl e)
  then show ?thesis by blast
next
  case (Inr s')
  then obtain pk t where "make_trip pk kw = Inr t"
    unfolding insert_trip_def
    by (elim bind_e_InrE) (simp split: prod.splits, elim bind_e_InrE, blast)
  with make_trip_needs_time [OF assms] show ?thesis by blast
qed

lemma flush_fails:
  assumes "p \<in> set ps" and "\<And>s. \<exists>e. insert_row p s = Inl e"
  shows "\<exists>e. flush ps s = Inl e"
  using assms(1)
proof (induction ps arbitrary: s)
  case Nil
  then show ?case by simp
next
  case (Cons a ps)
  show ?case
  proof (cases "insert_row a s")
    case (Inl e)
    then show ?thesis by (simp add: bind_e_def)
  next
    case (Inr s1)
    with assms(2) [of s] have "a \<noteq> p" by auto
    with Cons.prems have "p \<in> set ps" by simp
    from Cons.IH [OF this, of s1] Inr show ?thesis by (simp add: bind_e_def)
  qed
qed

lemma session_commit_fails:
  assumes "NewTrip kw \<in> set (session_new s)" and "attr kw ''time'' = PNone"
  shows "\<exists>e. session_commit s = Inl e"
proof -
  have "NewTrip kw \<in> set (filter is_new_user (session_new s) @
          filter is_new_trip (session_new s) @ filter is_new_user_trip (session_new s))"
    using assms(1) by simp
  moreover have "\<exists>e. insert_row (NewTrip kw) s1 = Inl e" for s1
    using insert_trip_needs_time [OF assms(2)] by simp
  ultimately show ?thesis
    unfolding session_commit_def Let_def by (rule flush_fails)
qed

lemma example_data_unfold:
  "example_data hashed_pw s =
     session_commit
       (session_add (NewTrip
            [(''date_of_trip'', PStr ''11-13-2018''),
             (''max_passengers'', PStr ''3''),
             (''num_passengers'', PStr ''1''),
             (''willing_to_stop'', PBool False),
             (''trip_cost'', PStr ''10''),
             (''user_id'', PStr ''1''),
             (''origin'', PStr ''San Francisco''),
             (''destination'', PStr ''Los Angeles''),
             (''distance_meters'', PStr ''15422''),
             (''display_distance'', PStr ''13 mi'')])
          (session_add (NewUser
            [(''fname'', PStr ''Jo''),
             (''lname'', PStr ''Bama''),
             (''email'', PStr ''jo@bama.com''),
             (''user_bio'', PStr ''Friendly person''),
             (''user_gender'', PStr ''Female''),
             (''password'', PStr hashed_pw),
             (''user_profile_img'',
                PStr ''https://robohash.org/enimsolutaqui.png?size=50x50&set=set1''),
             (''user_social_media'', PStr ''twitter.com'')]) s))"
  by (simp only: example_data_def Let_def)

lemma example_trip_has_no_time:
  "attr [(''date_of_trip'', PStr ''11-13-2018''),
         (''max_passengers'', PStr ''3''),
         (''num_passengers'', PStr ''1''),
         (''willing_to_stop'', PBool False),
         (''trip_cost'', PStr ''10''),
         (''user_id'', PStr ''1''),
         (''origin'', PStr ''San Francisco''),
         (''destination'', PStr ''Los Angeles''),
         (''distance_meters'', PStr ''15422''),
         (''display_distance'', PStr ''13 mi'')] ''time'' = PNone"
  by (simp add: attr_def)

lemma example_data_fails: "\<exists>e. example_data hashed_pw s = Inl e"
  unfolding example_data_unfold
  by (rule session_commit_fails [OF _ example_trip_has_no_time]) (simp add: session_add_def)

lemma bind_e_Inr: "bind_e (Inr x) f = f x"
  by (simp add: bind_e_def)

lemma bind_e_Inl: "bind_e (Inl e) f = Inl e"
  by (simp add: bind_e_def)

lemma example_date: "date_of_text ''11-13-2018'' = Some \<lparr>year = 2018, month = 11, day = 13\<rparr>"
  by (simp add: date_of_text_def digits_ok_def is_digit_def nat_of_digits_def digit_val_def
      valid_date_def days_in_month_def)

lemma example_integers:
  "int_of_text ''3'' = Some 3" "int_of_text ''1'' = Some 1" "int_of_text ''10'' = Some 10"
  "int_of_text ''15422'' = Some 15422"
  by (simp_all add: int_of_text_def digits_ok_def is_digit_def nat_of_digits_def digit_val_def)

lemma example_trip_row:
  "make_trip pk
     [(''date_of_trip'', PStr ''11-13-2018''),
      (''max_passengers'', PStr ''3''),
      (''num_passengers'', PStr ''1''),
      (''willing_to_stop'', PBool False),
      (''trip_cost'', PStr ''10''),
      (''user_id'', PStr ''1''),
      (''origin'', PStr ''San Francisco''),
      (''destination'', PStr ''Los Angeles''),
      (''distance_meters'', PStr ''15422''),
      (''display_distance'', PStr ''13 mi'')] = Inl IntegrityError"
  by (simp add: make_trip_def attr_def example_date example_integers bind_e_Inr bind_e_Inl
      not_null_def with_default_def int4_ok_def)

lemma example_trip_insert:
  "insert_trip
     [(''date_of_trip'', PStr ''11-13-2018''),
      (''max_passengers'', PStr ''3''),
      (''num_passengers'', PStr ''1''),
      (''willing_to_stop'', PBool False),
      (''trip_cost'', PStr ''10''),
      (''user_id'', PStr ''1''),
      (''origin'', PStr ''San Francisco''),
      (''destination'', PStr ''Los Angeles''),
      (''distance_meters'', PStr ''15422''),
      (''display_distance'', PStr ''13 mi'')] s = Inl IntegrityError"
proof -
  have "attr [(''date_of_trip'', PStr ''11-13-2018''),
      (''max_passengers'', PStr ''3''),
      (''num_passengers'', PStr ''1''),
      (''willing_to_stop'', PBool False),
      (''trip_cost'', PStr ''10''),
      (''user_id'', PStr ''1''),
      (''origin'', PStr ''San Francisco''),
      (''destination'', PStr ''Los Angeles''),
      (''distance_meters'', PStr ''15422''),
      (''display_distance'', PStr ''13 mi'')] ''trip_id'' = PNone"
    by (simp add: attr_def)
  then show ?thesis
    by (simp add: insert_trip_def example_trip_row bind_e_Inr bind_e_Inl next_id_def)
qed

lemma example_user_insert:
  "\<exists>s1. insert_user
     [(''fname'', PStr ''Jo''),
      (''lname'', PStr ''Bama''),
      (''email'', PStr ''jo@bama.com''),
      (''user_bio'', PStr ''Friendly person''),
      (''user_gender'', PStr ''Female''),
      (''password'', PStr sample_hash),
      (''user_profile_img'',
         PStr ''https://robohash.org/enimsolutaqui.png?size=50x50&set=set1''),
      (''user_social_media'', PStr ''twitter.com'')] (empty_store\<lparr>session_new := []\<rparr>) =
     Inr s1"
proof -
  have "length sample_hash \<le> 649" by (simp add: sample_hash_def)
  then show ?thesis
    by (simp add: insert_user_def make_user_def attr_def bind_e_Inr bind_e_Inl next_id_def
        empty_store_def)
qed

text \<open>
  C6: the seeder is claimed to add one new User and one new Trip at each invocation, so
  that two invocations leave two distinct rows of each. The code does not get there: the
  call of \<^verbatim>\<open>Trip\<close> gives no \<^verbatim>\<open>time\<close>, a column declared \<^verbatim>\<open>nullable=False\<close> without a
  default, so the single commit of \<^verbatim>\<open>example_data\<close> is rejected. On the empty store the
  result is \<open>IntegrityError\<close>, and on every store, for every hash, it is an error: no
  row is persisted by any invocation.
\<close>

theorem example_data_commit_rejected:
  "example_data sample_hash empty_store = Inl IntegrityError \<and>
   (\<forall>hashed_pw s. \<exists>e. example_data hashed_pw s = Inl e)"
proof
  from example_user_insert obtain s1 where
    u: "insert_user
          [(''fname'', PStr ''Jo''),
           (''lname'', PStr ''Bama''),
           (''email'', PStr ''jo@bama.com''),
           (''user_bio'', PStr ''Friendly person''),
           (''user_gender'', PStr ''Female''),
           (''password'', PStr sample_hash),
           (''user_profile_img'',
              PStr ''https://robohash.org/enimsolutaqui.png?size=50x50&set=set1''),
           (''user_social_media'', PStr ''twitter.com'')] (empty_store\<lparr>session_new := []\<rparr>) =
        Inr s1"
    by blast
  have n: "session_new empty_store = []" by (simp add: empty_store_def)
  show "example_data sample_hash empty_store = Inl IntegrityError"
    unfolding example_data_unfold
    by (simp add: session_commit_def session_add_def n u example_trip_insert
        bind_e_Inr bind_e_Inl)
next
  show "\<forall>hashed_pw s. \<exists>e. example_data hashed_pw s = Inl e"
    using example_data_fails by blast
qed

end
